theory Spec2Isabelle
  imports Complex_Main
begin

section \<open>Tensors\<close>

text \<open>
  The notebooks compute on framework tensors. A tensor is modelled by its shape and by the
  function from a multi-index to the entry at that index; the entries are real numbers, the
  idealisation of the single-precision floats the framework stores. Every operation that the
  framework refuses (a shape mismatch, a dimension out of range) and every Python exception is
  a value \<open>Inl e\<close> of the result type \<open>error + 'a\<close>.

  \<open>NonFinite\<close> stands for the one place where the program divides by a float zero: the
  framework then returns a tensor of \<open>nan\<close> and \<open>inf\<close> entries, which no real-valued tensor
  represents.
\<close>

datatype error =
  AssertionError | ZeroDivisionError | ValueError | IndexError | RuntimeError | NonFinite

record tensor =
  shape :: "nat list"
  elem :: "nat list \<Rightarrow> real"

text \<open>Sequencing: \<open>and_then r f\<close> is \<open>f\<close> applied to the value of \<open>r\<close>, or the error of \<open>r\<close>, as
  the next statement of the program runs only when the previous one has not raised.\<close>

definition and_then :: "error + 'a \<Rightarrow> ('a \<Rightarrow> error + 'b) \<Rightarrow> error + 'b" where
  "and_then r f = (case r of Inl e \<Rightarrow> Inl e | Inr x \<Rightarrow> f x)"

definition zeros :: "nat list \<Rightarrow> tensor" where
  "zeros s = \<lparr>shape = s, elem = (\<lambda>idx. 0)\<rparr>"

definition numel :: "tensor \<Rightarrow> nat" where
  "numel t = prod_list (shape t)"

subsection \<open>Broadcasting\<close>

text \<open>
  Two shapes are aligned at their last dimension; two aligned sizes are compatible when they
  are equal or one of them is 1, and a missing dimension counts as 1. \<open>broadcast_rev\<close> works on
  the reversed shapes.
\<close>

fun broadcast_rev :: "nat list \<Rightarrow> nat list \<Rightarrow> nat list option" where
  "broadcast_rev [] ys = Some ys"
| "broadcast_rev xs [] = Some xs"
| "broadcast_rev (x # xs) (y # ys) =
     (if x = y \<or> y = 1 then map_option (Cons x) (broadcast_rev xs ys)
      else if x = 1 then map_option (Cons y) (broadcast_rev xs ys)
      else None)"

definition broadcast_shapes :: "nat list \<Rightarrow> nat list \<Rightarrow> nat list option" where
  "broadcast_shapes s1 s2 = map_option rev (broadcast_rev (rev s1) (rev s2))"

text \<open>The index into an operand of shape \<open>s\<close> that an index \<open>idx\<close> of the broadcast result
  reads: the last \<open>length s\<close> components, with 0 along every dimension of size 1.\<close>

definition bidx :: "nat list \<Rightarrow> nat list \<Rightarrow> nat list" where
  "bidx s idx = map2 (\<lambda>d i. if d = 1 then 0 else i) s (drop (length idx - length s) idx)"

text \<open>An elementwise binary operation on two tensors, as \<open>a + b\<close> and \<open>a * b\<close> are.\<close>

definition tensor_binop :: "(real \<Rightarrow> real \<Rightarrow> real) \<Rightarrow> tensor \<Rightarrow> tensor \<Rightarrow> error + tensor" where
  "tensor_binop f a b =
     (case broadcast_shapes (shape a) (shape b) of
        None \<Rightarrow> Inl RuntimeError
      | Some s \<Rightarrow>
          Inr \<lparr>shape = s,
               elem = (\<lambda>idx. f (elem a (bidx (shape a) idx)) (elem b (bidx (shape b) idx)))\<rparr>)"

definition tensor_add :: "tensor \<Rightarrow> tensor \<Rightarrow> error + tensor" where
  "tensor_add a b = tensor_binop (+) a b"

definition tensor_mul :: "tensor \<Rightarrow> tensor \<Rightarrow> error + tensor" where
  "tensor_mul a b = tensor_binop (*) a b"

text \<open>An elementwise unary operation: \<open>exp\<close>, \<open>sin\<close>, \<open>cos\<close>, the product with a Python
  float, \<open>relu\<close>.\<close>

definition tensor_map :: "(real \<Rightarrow> real) \<Rightarrow> tensor \<Rightarrow> tensor" where
  "tensor_map f t = \<lparr>shape = shape t, elem = (\<lambda>idx. f (elem t idx))\<rparr>"

subsection \<open>Views\<close>

text \<open>\<open>t.unsqueeze(d)\<close> inserts a dimension of size 1 at position \<open>d\<close>; \<open>squeeze_at\<close> removes
  the dimension at position \<open>d\<close>, reading index 0 along it.\<close>

definition unsqueeze :: "nat \<Rightarrow> tensor \<Rightarrow> tensor" where
  "unsqueeze d t =
     \<lparr>shape = take d (shape t) @ [1] @ drop d (shape t),
      elem = (\<lambda>idx. elem t (take d idx @ drop (Suc d) idx))\<rparr>"

definition squeeze_at :: "nat \<Rightarrow> tensor \<Rightarrow> tensor" where
  "squeeze_at d t =
     \<lparr>shape = take d (shape t) @ drop (Suc d) (shape t),
      elem = (\<lambda>idx. elem t (take d idx @ [0] @ drop d idx))\<rparr>"

definition swap_last2 :: "'a list \<Rightarrow> 'a list" where
  "swap_last2 xs =
     take (length xs - 2) xs @ [xs ! (length xs - 1), xs ! (length xs - 2)]"

text \<open>\<open>t.transpose(-2, -1)\<close>: a tensor of fewer than two dimensions has no dimension -2.\<close>

definition transpose_last2 :: "tensor \<Rightarrow> error + tensor" where
  "transpose_last2 t =
     (if length (shape t) < 2 then Inl IndexError
      else Inr \<lparr>shape = swap_last2 (shape t), elem = (\<lambda>idx. elem t (swap_last2 idx))\<rparr>)"

text \<open>
  \<open>t.reshape(s)\<close> keeps the entries in row-major order: \<open>ravel\<close> is the position of an
  index in that order and \<open>unravel\<close> the index at a position. The sizes are given in full by the
  program (no \<open>-1\<close>), so the number of entries must agree.
\<close>

definition ravel :: "nat list \<Rightarrow> nat list \<Rightarrow> nat" where
  "ravel s idx = foldl (\<lambda>acc (d, i). acc * d + i) 0 (zip s idx)"

fun unravel :: "nat list \<Rightarrow> nat \<Rightarrow> nat list" where
  "unravel [] n = []"
| "unravel (d # ds) n = n div prod_list ds # unravel ds (n mod prod_list ds)"

definition reshape :: "tensor \<Rightarrow> nat list \<Rightarrow> error + tensor" where
  "reshape t s =
     (if prod_list s \<noteq> numel t then Inl RuntimeError
      else Inr \<lparr>shape = s, elem = (\<lambda>idx. elem t (unravel (shape t) (ravel s idx)))\<rparr>)"

text \<open>\<open>t.permute(dims)\<close>: dimension \<open>j\<close> of the result is dimension \<open>dims ! j\<close> of \<open>t\<close>.\<close>

definition index_of :: "nat list \<Rightarrow> nat \<Rightarrow> nat" where
  "index_of xs x = length (takeWhile (\<lambda>y. y \<noteq> x) xs)"

definition permute :: "tensor \<Rightarrow> nat list \<Rightarrow> error + tensor" where
  "permute t dims =
     (if length dims \<noteq> length (shape t) then Inl RuntimeError
      else if \<not> list_all (\<lambda>d. d < length (shape t)) dims then Inl IndexError
      else if \<not> distinct dims then Inl RuntimeError
      else Inr \<lparr>shape = map (\<lambda>d. shape t ! d) dims,
                elem = (\<lambda>idx. elem t (map (\<lambda>d. idx ! index_of dims d) [0..<length dims]))\<rparr>)"

text \<open>
  \<open>t.chunk(chunks, dim=-1)\<close> cuts the last dimension, of size \<open>n\<close>, into pieces of
  \<open>\<lceil>n / chunks\<rceil>\<close> columns, the last piece holding what is left; an empty last dimension gives
  \<open>chunks\<close> empty pieces.
\<close>

definition chunk :: "tensor \<Rightarrow> nat \<Rightarrow> error + tensor list" where
  "chunk t chunks =
     (if shape t = [] then Inl RuntimeError
      else if chunks = 0 then Inl RuntimeError
      else
        let n = last (shape t);
            split_size = (n + chunks - 1) div chunks;
            pieces = (if n = 0 then chunks else (n + split_size - 1) div split_size)
        in Inr (map (\<lambda>c. \<lparr>shape = butlast (shape t) @ [min split_size (n - c * split_size)],
                            elem = (\<lambda>idx. elem t (butlast idx @ [c * split_size + last idx]))\<rparr>)
                  [0..<pieces]))"

text \<open>The Python assignment \<open>a, b, c = xs\<close>.\<close>

fun unpack3 :: "'a list \<Rightarrow> error + ('a \<times> 'a \<times> 'a)" where
  "unpack3 [a, b, c] = Inr (a, b, c)"
| "unpack3 xs = Inl ValueError"

text \<open>\<open>t[:, :n]\<close>: a slice bound beyond the size of the dimension is clamped to it.\<close>

definition slice_dim1 :: "tensor \<Rightarrow> nat \<Rightarrow> error + tensor" where
  "slice_dim1 t n =
     (if length (shape t) < 2 then Inl IndexError
      else Inr \<lparr>shape = (shape t)[1 := min n (shape t ! 1)], elem = elem t\<rparr>)"

text \<open>
  \<open>dst[:, start::2] = src\<close> on a matrix \<open>dst\<close>: the slice holds the columns \<open>start\<close>,
  \<open>start + 2\<close>, ... of \<open>dst\<close>, and \<open>src\<close> must broadcast to the shape of the slice.
\<close>

definition assign_cols :: "tensor \<Rightarrow> nat \<Rightarrow> tensor \<Rightarrow> error + tensor" where
  "assign_cols dst start src =
     (if length (shape dst) \<noteq> 2 then Inl IndexError
      else
        let cols = (shape dst ! 1 + 1 - start) div 2;
            slice = [shape dst ! 0, cols]
        in if broadcast_shapes (shape src) slice \<noteq> Some slice then Inl RuntimeError
           else Inr \<lparr>shape = shape dst,
                     elem = (\<lambda>idx. if start \<le> idx ! 1 \<and> (idx ! 1 - start) mod 2 = 0
                                    then elem src (bidx (shape src) [idx ! 0, (idx ! 1 - start) div 2])
                                    else elem dst idx)\<rparr>)"

text \<open>\<open>torch.arange(0, n, step)\<close> for a positive step.\<close>

definition arange :: "nat \<Rightarrow> nat \<Rightarrow> tensor" where
  "arange n step = \<lparr>shape = [(n + step - 1) div step], elem = (\<lambda>idx. real (idx ! 0 * step))\<rparr>"

subsection \<open>Matrix product\<close>

text \<open>
  \<open>a @ b\<close>. A vector on the left is read as a one-row matrix and a vector on the right as a
  one-column matrix, and the added dimension is removed from the result; the dimensions before
  the last two are batch dimensions and are broadcast; the inner sizes must agree.
\<close>

definition matmul :: "tensor \<Rightarrow> tensor \<Rightarrow> error + tensor" where
  "matmul a b =
     (if shape a = [] \<or> shape b = [] then Inl RuntimeError
      else
        let a2 = (if length (shape a) = 1 then unsqueeze 0 a else a);
            b2 = (if length (shape b) = 1 then unsqueeze 1 b else b);
            ra = length (shape a2);
            rb = length (shape b2);
            n = shape a2 ! (ra - 1)
        in if shape b2 ! (rb - 2) \<noteq> n then Inl RuntimeError
           else
             case broadcast_shapes (take (ra - 2) (shape a2)) (take (rb - 2) (shape b2)) of
               None \<Rightarrow> Inl RuntimeError
             | Some batch \<Rightarrow>
                 let r = length batch;
                     c = \<lparr>shape = batch @ [shape a2 ! (ra - 2), shape b2 ! (rb - 1)],
                          elem = (\<lambda>idx. \<Sum>j<n.
                                    elem a2 (bidx (take (ra - 2) (shape a2)) (take r idx) @ [idx ! r, j]) *
                                    elem b2 (bidx (take (rb - 2) (shape b2)) (take r idx) @ [j, idx ! Suc r]))\<rparr>;
                     c1 = (if length (shape b) = 1 then squeeze_at (Suc r) c else c);
                     c2 = (if length (shape a) = 1 then squeeze_at r c1 else c1)
                 in Inr c2)"

subsection \<open>Elementwise operations and softmax\<close>

text \<open>\<open>t / c\<close> for a Python float \<open>c\<close>. Dividing a tensor by \<open>0.0\<close> raises nothing: every entry
  of the result is \<open>nan\<close> or \<open>inf\<close>.\<close>

definition div_scalar :: "tensor \<Rightarrow> real \<Rightarrow> error + tensor" where
  "div_scalar t c =
     (if c = 0 \<and> numel t \<noteq> 0 then Inl NonFinite
      else Inr \<lparr>shape = shape t, elem = (\<lambda>idx. elem t idx / c)\<rparr>)"

text \<open>\<open>softmax(t, dim=d)\<close>: each entry is its exponential over the sum of the exponentials of
  the entries that differ from it in component \<open>d\<close> of the index only. (The framework subtracts
  the maximum first, which does not change the quotient.)\<close>

definition softmax :: "tensor \<Rightarrow> nat \<Rightarrow> error + tensor" where
  "softmax t d =
     (if length (shape t) \<le> d then Inl IndexError
      else Inr \<lparr>shape = shape t,
                elem = (\<lambda>idx. exp (elem t idx) / (\<Sum>j<shape t ! d. exp (elem t (idx[d := j]))))\<rparr>)"

section \<open>Framework layers\<close>

text \<open>
  \<open>nn.Linear(in_features, out_features)\<close> holds a weight matrix with one row per output
  feature and a bias vector, and maps the last dimension of its input:
  \<open>y[..., o] = (\<Sum>j. x[..., j] * weight[o, j]) + bias[o]\<close>. An input whose last dimension is
  not \<open>in_features\<close> is refused.
\<close>

record linear =
  in_features :: nat
  out_features :: nat
  weight :: "nat \<Rightarrow> nat \<Rightarrow> real"
  bias :: "nat \<Rightarrow> real"

definition linear_forward :: "linear \<Rightarrow> tensor \<Rightarrow> error + tensor" where
  "linear_forward l x =
     (if shape x = [] then Inl RuntimeError
      else if last (shape x) \<noteq> in_features l then Inl RuntimeError
      else Inr \<lparr>shape = butlast (shape x) @ [out_features l],
                elem = (\<lambda>idx. (\<Sum>j<in_features l. elem x (butlast idx @ [j]) * weight l (last idx) j)
                               + bias l (last idx))\<rparr>)"

text \<open>
  \<open>nn.LayerNorm(d)\<close> normalises each vector along the last dimension to mean 0 and variance
  1 (the variance is the biased one, and \<open>eps\<close> is added to it), then scales and shifts by the
  learned \<open>gamma\<close> and \<open>beta\<close>.
\<close>

record layer_norm =
  normalized_shape :: nat
  gamma :: "nat \<Rightarrow> real"
  beta :: "nat \<Rightarrow> real"
  eps :: real

definition row_mean :: "nat \<Rightarrow> (nat \<Rightarrow> real) \<Rightarrow> real" where
  "row_mean d r = (\<Sum>j<d. r j) / real d"

definition row_var :: "nat \<Rightarrow> (nat \<Rightarrow> real) \<Rightarrow> real" where
  "row_var d r = (\<Sum>j<d. (r j - row_mean d r)\<^sup>2) / real d"

definition layer_norm_forward :: "layer_norm \<Rightarrow> tensor \<Rightarrow> error + tensor" where
  "layer_norm_forward self x =
     (if shape x = [] then Inl RuntimeError
      else if last (shape x) \<noteq> normalized_shape self then Inl RuntimeError
      else Inr \<lparr>shape = shape x,
                elem = (\<lambda>idx.
                  let r = (\<lambda>j. elem x (butlast idx @ [j]));
                      d = normalized_shape self
                  in (elem x idx - row_mean d r) / sqrt (row_var d r + eps self) * gamma self (last idx)
                     + beta self (last idx))\<rparr>)"

definition LayerNorm_init :: "nat \<Rightarrow> layer_norm" where
  "LayerNorm_init d = \<lparr>normalized_shape = d, gamma = (\<lambda>j. 1), beta = (\<lambda>j. 0), eps = 1 / 100000\<rparr>"

text \<open>
  \<open>nn.Dropout(p)\<close>. The constructor refuses a probability outside \<open>[0, 1]\<close>. In training
  mode each entry is kept with probability \<open>1 - p\<close> and scaled by \<open>1 / (1 - p)\<close>, or set to 0;
  the random choice is the argument \<open>keep\<close>. With \<open>p = 0\<close> or in inference mode the layer is the
  identity, with \<open>p = 1\<close> it returns zeros.
\<close>

definition Dropout_init :: "real \<Rightarrow> error + real" where
  "Dropout_init p = (if p < 0 then Inl ValueError else if 1 < p then Inl ValueError else Inr p)"

definition dropout :: "real \<Rightarrow> bool \<Rightarrow> (nat list \<Rightarrow> bool) \<Rightarrow> tensor \<Rightarrow> tensor" where
  "dropout p train keep x =
     (if \<not> train then x
      else if p = 0 then x
      else if p = 1 then \<lparr>shape = shape x, elem = (\<lambda>idx. 0)\<rparr>
      else \<lparr>shape = shape x, elem = (\<lambda>idx. if keep idx then elem x idx / (1 - p) else 0)\<rparr>)"

definition relu :: "tensor \<Rightarrow> tensor" where
  "relu x = tensor_map (\<lambda>v. max 0 v) x"

section \<open>Scaled dot-product attention\<close>

text \<open>
  \<^verbatim>\<open>
  def scaled_dot_product(q, k, v, mask=None):
    score_matrix = q @ k.transpose(-2, -1)
    scaled_score = score_matrix / math.sqrt(k.shape[1])
    attention_weight = torch.nn.functional.softmax(scaled_score, dim= 1)
    output = attention_weight @ v
    return output, attention_weight
  \<close>
  \<open>scaled_score\<close> is the value of the local variable of that name. When the transpose has
  succeeded, \<open>k\<close> has at least two dimensions and \<open>k.shape[1]\<close> exists.
\<close>

definition scaled_score :: "tensor \<Rightarrow> tensor \<Rightarrow> error + tensor" where
  "scaled_score q k =
     and_then (transpose_last2 k) (\<lambda>kT.
     and_then (matmul q kT) (\<lambda>score_matrix.
       div_scalar score_matrix (sqrt (real (shape k ! 1)))))"

definition scaled_dot_product ::
  "tensor \<Rightarrow> tensor \<Rightarrow> tensor \<Rightarrow> tensor option \<Rightarrow> error + (tensor \<times> tensor)" where
  "scaled_dot_product q k v msk =
     and_then (scaled_score q k) (\<lambda>scaled.
     and_then (softmax scaled 1) (\<lambda>attention_weight.
     and_then (matmul attention_weight v) (\<lambda>output.
       Inr (output, attention_weight))))"

section \<open>Multi-head attention\<close>

text \<open>
  \<^verbatim>\<open>
  class MultiheadAttention(nn.Module):
      def __init__(self, input_dim, embed_dim, num_heads):
          super().__init__()
          assert embed_dim % num_heads == 0, "Embedding dimension must be 0 modulo number of heads."
          self.embed_dim = embed_dim
          self.num_heads = num_heads
          self.head_dim = embed_dim // num_heads
          self.qkv_proj = nn.Linear(input_dim, 3 * embed_dim)
          self.o_proj = nn.Linear(embed_dim, embed_dim)
          self._reset_parameters()

      def _reset_parameters(self):
          nn.init.xavier_uniform_(self.qkv_proj.weight)
          self.qkv_proj.bias.data.fill_(0)
          nn.init.xavier_uniform_(self.o_proj.weight)
          self.o_proj.bias.data.fill_(0)
  \<close>
  \<open>embed_dim % num_heads\<close> raises ZeroDivisionError for \<open>num_heads = 0\<close>, and the assertion
  fails for a non-zero remainder.

  \<open>nn.init.xavier_uniform_\<close> draws the entries of a weight matrix of \<open>fan_out\<close> rows and
  \<open>fan_in\<close> columns from a uniform distribution whose bound it computes from
  \<open>2.0 / float(fan_in + fan_out)\<close>, a Python division that raises ZeroDivisionError when the
  matrix has neither rows nor columns. The values drawn are the argument \<open>w\<close>.

  \<open>nn.Linear\<close> itself accepts every pair of sizes; the values it draws for its weight and
  bias are overwritten by \<open>_reset_parameters\<close> before anything reads them, and are zero in the
  model.
\<close>

record multihead_attention =
  embed_dim :: nat
  num_heads :: nat
  head_dim :: nat
  qkv_proj :: linear
  o_proj :: linear

definition xavier_uniform ::
  "nat \<Rightarrow> nat \<Rightarrow> (nat \<Rightarrow> nat \<Rightarrow> real) \<Rightarrow> error + (nat \<Rightarrow> nat \<Rightarrow> real)" where
  "xavier_uniform fan_in fan_out w =
     (if fan_in + fan_out = 0 then Inl ZeroDivisionError else Inr w)"

definition reset_parameters ::
  "multihead_attention \<Rightarrow> (nat \<Rightarrow> nat \<Rightarrow> real) \<Rightarrow> (nat \<Rightarrow> nat \<Rightarrow> real) \<Rightarrow> error + multihead_attention" where
  "reset_parameters self w_qkv w_o =
     and_then (xavier_uniform (in_features (qkv_proj self)) (out_features (qkv_proj self)) w_qkv)
       (\<lambda>qkv_weight.
     and_then (xavier_uniform (in_features (o_proj self)) (out_features (o_proj self)) w_o)
       (\<lambda>o_weight.
       Inr (self\<lparr>qkv_proj := (qkv_proj self)\<lparr>weight := qkv_weight, bias := (\<lambda>j. 0)\<rparr>,
                 o_proj := (o_proj self)\<lparr>weight := o_weight, bias := (\<lambda>j. 0)\<rparr>\<rparr>)))"

definition MultiheadAttention_init ::
  "nat \<Rightarrow> nat \<Rightarrow> nat \<Rightarrow> (nat \<Rightarrow> nat \<Rightarrow> real) \<Rightarrow> (nat \<Rightarrow> nat \<Rightarrow> real) \<Rightarrow> error + multihead_attention" where
  "MultiheadAttention_init input_dim embed_dim' num_heads' w_qkv w_o =
     (if num_heads' = 0 then Inl ZeroDivisionError
      else if embed_dim' mod num_heads' \<noteq> 0 then Inl AssertionError
      else reset_parameters
             \<lparr>embed_dim = embed_dim',
              num_heads = num_heads',
              head_dim = embed_dim' div num_heads',
              qkv_proj = \<lparr>in_features = input_dim, out_features = 3 * embed_dim',
                           weight = (\<lambda>i j. 0), bias = (\<lambda>j. 0)\<rparr>,
              o_proj = \<lparr>in_features = embed_dim', out_features = embed_dim',
                         weight = (\<lambda>i j. 0), bias = (\<lambda>j. 0)\<rparr>\<rparr>
             w_qkv w_o)"

text \<open>
  \<^verbatim>\<open>
      def forward(self, x, mask=None, return_attention=False):
          batch_size, seq_length, embed_dim = x.size()
          qkv = self.qkv_proj(x)
          qkv = qkv.reshape(batch_size, seq_length, self.num_heads, 3 * self.head_dim)
          qkv = qkv.permute(0, 2, 1, 3)  # [Batch, Head, SeqLen, Dims]
          q, k, v = qkv.chunk(3, dim=-1)
          values, attention = scaled_dot_product(q, k, v, mask=mask)
          values = values.permute(0, 2, 1, 3)  # [Batch, SeqLen, Head, Dims]
          values = values.reshape(batch_size, seq_length, embed_dim)
          o = self.o_proj(values)
          if return_attention:
              return o, attention
          else:
              return o
  \<close>
  The local \<open>embed_dim\<close> is the size of the last dimension of \<open>x\<close>, not \<open>self.embed_dim\<close>. The
  result is the pair of \<open>o\<close> and, when asked for, the attention weights.
\<close>

definition MultiheadAttention_forward ::
  "multihead_attention \<Rightarrow> tensor \<Rightarrow> tensor option \<Rightarrow> bool \<Rightarrow> error + (tensor \<times> tensor option)" where
  "MultiheadAttention_forward self x msk return_attention =
     and_then (unpack3 (shape x)) (\<lambda>(batch_size, seq_length, embed_dim_x).
     and_then (linear_forward (qkv_proj self) x) (\<lambda>qkv0.
     and_then (reshape qkv0 [batch_size, seq_length, num_heads self, 3 * head_dim self]) (\<lambda>qkv1.
     and_then (permute qkv1 [0, 2, 1, 3]) (\<lambda>qkv.
     and_then (chunk qkv 3) (\<lambda>parts.
     and_then (unpack3 parts) (\<lambda>(q, k, v).
     and_then (scaled_dot_product q k v msk) (\<lambda>(values0, attention).
     and_then (permute values0 [0, 2, 1, 3]) (\<lambda>values1.
     and_then (reshape values1 [batch_size, seq_length, embed_dim_x]) (\<lambda>values.
     and_then (linear_forward (o_proj self) values) (\<lambda>o_out.
       if return_attention then Inr (o_out, Some attention) else Inr (o_out, None)))))))))))"

section \<open>Encoder block\<close>

text \<open>
  \<^verbatim>\<open>
  class EncoderBlock(nn.Module):
      def __init__(self, input_dim, num_heads, dim_feedforward, dropout=0.0):
          super().__init__()
          self.self_attn = MultiheadAttention(input_dim, input_dim, num_heads)
          self.linear_net = nn.Sequential(
              nn.Linear(input_dim, dim_feedforward),
              nn.Dropout(dropout),
              nn.ReLU(inplace=True),
              nn.Linear(dim_feedforward, input_dim),
          )
          self.norm1 = nn.LayerNorm(input_dim)
          self.norm2 = nn.LayerNorm(input_dim)
          self.dropout = nn.Dropout(dropout)
  \<close>
  The four layers of \<open>linear_net\<close> are the fields \<open>linear_net_0\<close> (a linear layer),
  \<open>linear_net_1\<close> (the probability of the dropout layer), the parameterless ReLU, and
  \<open>linear_net_3\<close>. The randomly initialised weights are the argument \<open>params\<close>. A module is
  created in training mode; \<open>EncoderBlock_train\<close> is \<open>self.train(mode)\<close>, and
  \<open>self.eval()\<close> is \<open>self.train(False)\<close>.
\<close>

record block_params =
  attn_w_qkv :: "nat \<Rightarrow> nat \<Rightarrow> real"
  attn_w_o :: "nat \<Rightarrow> nat \<Rightarrow> real"
  ff_w0 :: "nat \<Rightarrow> nat \<Rightarrow> real"
  ff_b0 :: "nat \<Rightarrow> real"
  ff_w3 :: "nat \<Rightarrow> nat \<Rightarrow> real"
  ff_b3 :: "nat \<Rightarrow> real"

record encoder_block =
  self_attn :: multihead_attention
  linear_net_0 :: linear
  linear_net_1 :: real
  linear_net_3 :: linear
  norm1 :: layer_norm
  norm2 :: layer_norm
  dropout_p :: real
  training :: bool

definition EncoderBlock_init ::
  "nat \<Rightarrow> nat \<Rightarrow> nat \<Rightarrow> real \<Rightarrow> block_params \<Rightarrow> error + encoder_block" where
  "EncoderBlock_init input_dim num_heads' dim_feedforward dropout' params =
     and_then (MultiheadAttention_init input_dim input_dim num_heads'
                 (attn_w_qkv params) (attn_w_o params)) (\<lambda>attn.
     and_then (Dropout_init dropout') (\<lambda>p1.
     and_then (Dropout_init dropout') (\<lambda>p.
        Inr \<lparr>self_attn = attn,
             linear_net_0 = \<lparr>in_features = input_dim, out_features = dim_feedforward,
                              weight = ff_w0 params, bias = ff_b0 params\<rparr>,
             linear_net_1 = p1,
             linear_net_3 = \<lparr>in_features = dim_feedforward, out_features = input_dim,
                              weight = ff_w3 params, bias = ff_b3 params\<rparr>,
             norm1 = LayerNorm_init input_dim,
             norm2 = LayerNorm_init input_dim,
             dropout_p = p,
             training = True\<rparr>)))"

definition EncoderBlock_train :: "bool \<Rightarrow> encoder_block \<Rightarrow> encoder_block" where
  "EncoderBlock_train mode self = self\<lparr>training := mode\<rparr>"

text \<open>
  One call of \<open>forward\<close> draws dropout noise three times: for \<open>self.dropout(attn_out)\<close>, for
  the dropout layer inside \<open>linear_net\<close>, and for \<open>self.dropout(linear_out)\<close>.
\<close>

record dropout_draws =
  keep_attn :: "nat list \<Rightarrow> bool"
  keep_ff :: "nat list \<Rightarrow> bool"
  keep_out :: "nat list \<Rightarrow> bool"

text \<open>\<open>self.linear_net(x)\<close>: the layers of the \<open>nn.Sequential\<close> in their order.\<close>

definition linear_net :: "encoder_block \<Rightarrow> (nat list \<Rightarrow> bool) \<Rightarrow> tensor \<Rightarrow> error + tensor" where
  "linear_net self keep x =
     and_then (linear_forward (linear_net_0 self) x) (\<lambda>h0.
       linear_forward (linear_net_3 self)
         (relu (dropout (linear_net_1 self) (training self) keep h0)))"

text \<open>
  \<^verbatim>\<open>
      def forward(self, x, mask=None):
          attn_out = self.self_attn(x, mask=mask)
          x = x + self.dropout(attn_out)
          x = self.norm1(x)
          linear_out = self.linear_net(x)
          x = x + self.dropout(linear_out)
          x = self.norm2(x)
          return x
  \<close>
\<close>

definition EncoderBlock_forward ::
  "encoder_block \<Rightarrow> dropout_draws \<Rightarrow> tensor \<Rightarrow> tensor option \<Rightarrow> error + tensor" where
  "EncoderBlock_forward self rnd x msk =
     and_then (MultiheadAttention_forward (self_attn self) x msk False) (\<lambda>(attn_out, unused).
     and_then (tensor_add x (dropout (dropout_p self) (training self) (keep_attn rnd) attn_out)) (\<lambda>x1.
     and_then (layer_norm_forward (norm1 self) x1) (\<lambda>x2.
     and_then (linear_net self (keep_ff rnd) x2) (\<lambda>linear_out.
     and_then (tensor_add x2 (dropout (dropout_p self) (training self) (keep_out rnd) linear_out)) (\<lambda>x3.
       layer_norm_forward (norm2 self) x3)))))"

text \<open>
  The two steps as the specification words them: the attention sub-layer with residual and
  normalisation, then \<open>ff_out = Linear\<^sub>2(Dropout(ReLU(Linear\<^sub>1(x))))\<close> with residual and
  normalisation.
\<close>

definition spec_step1 ::
  "encoder_block \<Rightarrow> dropout_draws \<Rightarrow> tensor \<Rightarrow> tensor option \<Rightarrow> error + tensor" where
  "spec_step1 self rnd x msk =
     and_then (MultiheadAttention_forward (self_attn self) x msk False) (\<lambda>(attn_out, unused).
     and_then (tensor_add x (dropout (dropout_p self) (training self) (keep_attn rnd) attn_out)) (\<lambda>s.
       layer_norm_forward (norm1 self) s))"

definition spec_step2 :: "encoder_block \<Rightarrow> dropout_draws \<Rightarrow> tensor \<Rightarrow> error + tensor" where
  "spec_step2 self rnd x =
     and_then (linear_forward (linear_net_0 self) x) (\<lambda>h.
     and_then (linear_forward (linear_net_3 self)
                 (dropout (linear_net_1 self) (training self) (keep_ff rnd) (relu h))) (\<lambda>ff_out.
     and_then (tensor_add x (dropout (dropout_p self) (training self) (keep_out rnd) ff_out)) (\<lambda>s.
       layer_norm_forward (norm2 self) s)))"

definition spec_encoder_block ::
  "encoder_block \<Rightarrow> dropout_draws \<Rightarrow> tensor \<Rightarrow> tensor option \<Rightarrow> error + tensor" where
  "spec_encoder_block self rnd x msk =
     and_then (spec_step1 self rnd x msk) (\<lambda>x1. spec_step2 self rnd x1)"

section \<open>Encoder stack\<close>

text \<open>
  \<^verbatim>\<open>
  class TransformerEncoder(nn.Module):
      def forward(self, x, mask=None):
          for layer in self.layers:
              x = layer(x, mask=mask)
          return x

      def get_attention_maps(self, x, mask=None):
          attention_maps = []
          for layer in self.layers:
              _, attn_map = layer.self_attn(x, mask=mask, return_attention=True)
              attention_maps.append(attn_map)
              x = layer(x)
          return attention_maps
  \<close>
  The argument \<open>layers\<close> is \<open>self.layers\<close>; \<open>rnd i\<close> is the dropout noise that the \<open>i\<close>-th
  block of the remaining list draws. \<open>attention_maps_loop\<close> is the loop of
  \<open>get_attention_maps\<close> with both of its variables, the list built so far and \<open>x\<close>;
  \<open>get_attention_maps\<close> returns the list.
\<close>

fun TransformerEncoder_forward ::
  "encoder_block list \<Rightarrow> (nat \<Rightarrow> dropout_draws) \<Rightarrow> tensor \<Rightarrow> tensor option \<Rightarrow> error + tensor" where
  "TransformerEncoder_forward [] rnd x msk = Inr x"
| "TransformerEncoder_forward (layer # layers) rnd x msk =
     and_then (EncoderBlock_forward layer (rnd 0) x msk) (\<lambda>x'.
       TransformerEncoder_forward layers (\<lambda>i. rnd (Suc i)) x' msk)"

text \<open>The unpacking \<open>_, attn_map = ...\<close> of the pair that \<open>return_attention=True\<close> returns.\<close>

fun unpack_attention :: "tensor \<times> tensor option \<Rightarrow> error + tensor" where
  "unpack_attention (o_out, Some attention) = Inr attention"
| "unpack_attention (o_out, None) = Inl ValueError"

fun attention_maps_loop ::
  "encoder_block list \<Rightarrow> (nat \<Rightarrow> dropout_draws) \<Rightarrow> tensor list \<Rightarrow> tensor \<Rightarrow> tensor option
    \<Rightarrow> error + (tensor list \<times> tensor)" where
  "attention_maps_loop [] rnd attention_maps x msk = Inr (attention_maps, x)"
| "attention_maps_loop (layer # layers) rnd attention_maps x msk =
     and_then (MultiheadAttention_forward (self_attn layer) x msk True) (\<lambda>r.
     and_then (unpack_attention r) (\<lambda>attn_map.
     and_then (EncoderBlock_forward layer (rnd 0) x None) (\<lambda>x'.
       attention_maps_loop layers (\<lambda>i. rnd (Suc i)) (attention_maps @ [attn_map]) x' msk)))"

definition get_attention_maps ::
  "encoder_block list \<Rightarrow> (nat \<Rightarrow> dropout_draws) \<Rightarrow> tensor \<Rightarrow> tensor option \<Rightarrow> error + tensor list" where
  "get_attention_maps layers rnd x msk =
     and_then (attention_maps_loop layers rnd [] x msk) (\<lambda>(attention_maps, x'). Inr attention_maps)"

section \<open>Positional encoding\<close>

text \<open>
  \<^verbatim>\<open>
  class PositionalEncoding(nn.Module):
      def __init__(self, d_model, max_len=5000):
          super().__init__()
          pe = torch.zeros(max_len, d_model)
          position = torch.arange(0, max_len, dtype=torch.float).unsqueeze(1)
          div_term = torch.exp(torch.arange(0, d_model, 2).float() * (-math.log(10000.0) / d_model))
          pe[:, 0::2] = torch.sin(position * div_term)
          pe[:, 1::2] = torch.cos(position * div_term)
          pe = pe.unsqueeze(0)
          self.register_buffer("pe", pe, persistent=False)

      def forward(self, x):
          x = x + self.pe[:, : x.size(1)]
          return x
  \<close>
  The Python division \<open>-math.log(10000.0) / d_model\<close> raises ZeroDivisionError for
  \<open>d_model = 0\<close>.
\<close>

record positional_encoding =
  pe :: tensor

definition div_term :: "nat \<Rightarrow> tensor" where
  "div_term d_model =
     tensor_map exp (tensor_map (\<lambda>v. v * (- ln 10000 / real d_model)) (arange d_model 2))"

definition PositionalEncoding_init :: "nat \<Rightarrow> nat \<Rightarrow> error + positional_encoding" where
  "PositionalEncoding_init d_model max_len =
     (if d_model = 0 then Inl ZeroDivisionError
      else
        let pe0 = zeros [max_len, d_model];
            position = unsqueeze 1 (arange max_len 1)
        in and_then (tensor_mul position (div_term d_model)) (\<lambda>angles0.
           and_then (assign_cols pe0 0 (tensor_map sin angles0)) (\<lambda>pe1.
           and_then (tensor_mul position (div_term d_model)) (\<lambda>angles1.
           and_then (assign_cols pe1 1 (tensor_map cos angles1)) (\<lambda>pe2.
             Inr \<lparr>pe = unsqueeze 0 pe2\<rparr>)))))"

definition PositionalEncoding_forward :: "positional_encoding \<Rightarrow> tensor \<Rightarrow> error + tensor" where
  "PositionalEncoding_forward self x =
     (if length (shape x) < 2 then Inl IndexError
      else and_then (slice_dim1 (pe self) (shape x ! 1)) (\<lambda>table. tensor_add x table))"

section \<open>Reading results\<close>

text \<open>The second component of the returned pair.\<close>

definition attention_weight_of :: "error + (tensor \<times> tensor) \<Rightarrow> error + tensor" where
  "attention_weight_of r = and_then r (\<lambda>(output, w). Inr w)"

definition entry :: "error + tensor \<Rightarrow> nat list \<Rightarrow> error + real" where
  "entry r idx = and_then r (\<lambda>t. Inr (elem t idx))"

section \<open>Properties of the attention core\<close>

lemma and_then_Inl [simp]: "and_then (Inl e) f = Inl e"
  by (simp add: and_then_def)

lemma and_then_Inr [simp]: "and_then (Inr x) f = f x"
  by (simp add: and_then_def)

lemma broadcast_rev_same: "broadcast_rev xs xs = Some xs"
  by (induction xs) simp_all

lemma broadcast_shapes_same: "broadcast_shapes s s = Some s"
  by (simp add: broadcast_shapes_def broadcast_rev_same)

lemma scaled_dot_product_mask_unused:
  "scaled_dot_product q k v (Some m) = scaled_dot_product q k v None"
  by (simp add: scaled_dot_product_def)

text \<open>
  Claim C1. With a mask present, the entries of the returned attention weights at the
  positions the mask excludes are below \<open>1e-6\<close>. The function never reads its \<open>mask\<close>
  argument: for two zero queries and keys and a mask that excludes key position 1, the weight
  of that position is one half.
\<close>

theorem scaled_dot_product_masked_weight:
  "entry (attention_weight_of
      (scaled_dot_product (zeros [2, 1]) (zeros [2, 1]) (zeros [2, 1])
         (Some \<lparr>shape = [2, 2], elem = (\<lambda>idx. if idx ! 1 = 1 then 0 else 1)\<rparr>))) [0, 1]
   = Inr (1 / 2)"
  by (simp add: scaled_dot_product_def scaled_score_def transpose_last2_def swap_last2_def
      matmul_def zeros_def div_scalar_def softmax_def numel_def broadcast_shapes_def
      attention_weight_of_def entry_def bidx_def)


text \<open>
  Claim C2. Without a mask the attention weights are normalised along the key axis, also for
  the batched tensors \<open>[Batch, Head, SeqLen, Dim]\<close> that the multi-head layer passes in. The
  softmax runs along dimension 1, which is the key axis of a matrix but the head axis of such a
  batch: with one head and two positions every weight is 1, and the weights of a query over
  its two keys add up to 2.
\<close>

theorem scaled_dot_product_batched_row_sum:
  "and_then (attention_weight_of
      (scaled_dot_product (zeros [1, 1, 2, 1]) (zeros [1, 1, 2, 1]) (zeros [1, 1, 2, 1]) None))
      (\<lambda>w. Inr (shape w, \<Sum>j<2. elem w [0, 0, 0, j])) = Inr ([1, 1, 2, 2], 2)"
  by (simp add: scaled_dot_product_def scaled_score_def transpose_last2_def swap_last2_def
      matmul_def zeros_def div_scalar_def softmax_def numel_def broadcast_shapes_def
      attention_weight_of_def bidx_def)

text \<open>
  Claim C3. The raw scores are divided by the square root of \<open>d_k\<close>, the size of the last
  dimension of the keys, also for batched tensors. The divisor is the square root of
  \<open>k.shape[1]\<close>, which is \<open>d_k\<close> for a matrix but the number of heads for a batch
  \<open>[Batch, Head, SeqLen, Dim]\<close>: for one head and \<open>d_k = 4\<close> the dot product 4 of two vectors
  of ones is left as it is, not halved.
\<close>

theorem scaled_score_batched_divisor:
  "entry (scaled_score \<lparr>shape = [1, 1, 1, 4], elem = (\<lambda>idx. 1)\<rparr>
                       \<lparr>shape = [1, 1, 1, 4], elem = (\<lambda>idx. 1)\<rparr>) [0, 0, 0, 0] = Inr 4
   \<and> (4 :: real) \<noteq> 4 / sqrt (real (last [1 :: nat, 1, 1, 4]))"
  by (simp add: scaled_score_def transpose_last2_def swap_last2_def
      matmul_def div_scalar_def numel_def broadcast_shapes_def entry_def bidx_def)

section \<open>Shapes through the multi-head layer\<close>

lemma linear_forward_ok:
  "shape x = s @ [in_features l] \<Longrightarrow>
   \<exists>y. linear_forward l x = Inr y \<and> shape y = s @ [out_features l]"
  by (simp add: linear_forward_def)

lemma linear_forward_bad:
  "shape x = s @ [d] \<Longrightarrow> d \<noteq> in_features l \<Longrightarrow> linear_forward l x = Inl RuntimeError"
  by (simp add: linear_forward_def)

lemma reshape_ok: "prod_list s = numel t \<Longrightarrow> \<exists>y. reshape t s = Inr y \<and> shape y = s"
  by (simp add: reshape_def)

lemma reshape_bad: "prod_list s \<noteq> numel t \<Longrightarrow> reshape t s = Inl RuntimeError"
  by (simp add: reshape_def)

lemma permute_0213:
  "shape t = [a, b, c, d] \<Longrightarrow> \<exists>y. permute t [0, 2, 1, 3] = Inr y \<and> shape y = [a, c, b, d]"
  by (simp add: permute_def)

lemma chunk3:
  assumes "shape t = s @ [3 * dh]"
  shows "\<exists>q k v. chunk t 3 = Inr [q, k, v] \<and> shape q = s @ [dh] \<and> shape k = s @ [dh] \<and> shape v = s @ [dh]"
proof (cases "dh = 0")
  case True
  have "[0..<3] = [0, 1, 2]" by (simp add: upt_rec)
  with True assms show ?thesis by (simp add: chunk_def)
next
  case False
  have u: "[0..<3] = [0, 1, 2]" by (simp add: upt_rec)
  have a: "(3 * dh + 3 - 1) div 3 = dh" by simp
  have b: "(3 * dh + dh - 1) div dh = 3" using False
    by (intro div_nat_eqI) (simp_all add: algebra_simps)
  with False assms a u show ?thesis by (simp add: chunk_def Let_def)
qed

lemma matmul_same_batch:
  assumes "shape a = bs @ [m, n]" and "shape b = bs @ [n, p]"
  shows "matmul a b = Inr \<lparr>shape = bs @ [m, p],
           elem = (\<lambda>idx. \<Sum>j<n. elem a (bidx bs (take (length bs) idx) @ [idx ! length bs, j]) *
                                  elem b (bidx bs (take (length bs) idx) @ [j, idx ! Suc (length bs)]))\<rparr>"
  using assms by (simp add: matmul_def Let_def nth_append broadcast_shapes_same)

lemma transpose_last2_ok:
  assumes "shape k = bs @ [t, d]"
  shows "transpose_last2 k = Inr \<lparr>shape = bs @ [d, t], elem = (\<lambda>idx. elem k (swap_last2 idx))\<rparr>"
  using assms by (simp add: transpose_last2_def swap_last2_def nth_append)

lemma scaled_dot_product_shape:
  assumes q: "shape q = bs @ [tq, d]" and k: "shape k = bs @ [tk, d]" and v: "shape v = bs @ [tk, dv]"
    and nz: "shape k ! 1 \<noteq> 0"
  shows "\<exists>out w. scaled_dot_product q k v msk = Inr (out, w) \<and>
           shape out = bs @ [tq, dv] \<and> shape w = bs @ [tq, tk]"
proof -
  have 1: "matmul q \<lparr>shape = bs @ [d, tk], elem = (\<lambda>idx. elem k (swap_last2 idx))\<rparr> = Inr \<lparr>shape = bs @ [tq, tk],
           elem = (\<lambda>idx. \<Sum>j<d. elem q (bidx bs (take (length bs) idx) @ [idx ! length bs, j]) *
                                  elem \<lparr>shape = bs @ [d, tk], elem = (\<lambda>idx. elem k (swap_last2 idx))\<rparr> (bidx bs (take (length bs) idx) @ [j, idx ! Suc (length bs)]))\<rparr>"
    by (rule matmul_same_batch) (simp_all add: q)
  obtain s where s: "scaled_score q k = Inr s" "shape s = bs @ [tq, tk]"
    using nz by (simp add: scaled_score_def transpose_last2_ok[OF k] 1 div_scalar_def)
  obtain w where w: "softmax s 1 = Inr w" "shape w = bs @ [tq, tk]"
    using s by (simp add: softmax_def)
  have "matmul w v = Inr \<lparr>shape = bs @ [tq, dv],
           elem = (\<lambda>idx. \<Sum>j<tk. elem w (bidx bs (take (length bs) idx) @ [idx ! length bs, j]) *
                                  elem v (bidx bs (take (length bs) idx) @ [j, idx ! Suc (length bs)]))\<rparr>"
    by (rule matmul_same_batch) (simp_all add: w v)
  then show ?thesis using s w by (simp add: scaled_dot_product_def)
qed


subsection \<open>The attention core on matrices\<close>

text \<open>
  On matrices, the case of the notebook's own test, dimension 1 is the key axis and
  \<open>k.shape[1]\<close> is \<open>d_k\<close>: the scores are the dot products over \<open>\<surd>d_k\<close>, every weight is
  non-negative, the weights of a query add up to 1, and each output row is the combination
  of the rows of \<open>v\<close> with these weights.
\<close>

lemma bidx_Nil [simp]: "bidx [] idx = []"
  by (simp add: bidx_def)

lemma matmul_matrix:
  assumes "shape a = [m, n]" and "shape b = [n, p]"
  shows "matmul a b =
     Inr \<lparr>shape = [m, p], elem = (\<lambda>idx. \<Sum>j<n. elem a [idx ! 0, j] * elem b [j, idx ! 1])\<rparr>"
  using matmul_same_batch[of a "[]" m n b p] assms by simp

lemma transpose_matrix:
  assumes "shape k = [t, d]"
  shows "transpose_last2 k = Inr \<lparr>shape = [d, t], elem = (\<lambda>idx. elem k (swap_last2 idx))\<rparr>"
  using transpose_last2_ok[of k "[]" t d] assms by simp

lemma scaled_score_matrix:
  assumes q: "shape q = [tq, d]" and k: "shape k = [tk, d]" and d: "0 < d"
  shows "scaled_score q k =
     Inr \<lparr>shape = [tq, tk],
          elem = (\<lambda>idx. (\<Sum>c<d. elem q [idx ! 0, c] * elem k [idx ! 1, c]) / sqrt (real d))\<rparr>"
proof -
  define kT where "kT = \<lparr>shape = [d, tk], elem = (\<lambda>idx. elem k (swap_last2 idx))\<rparr>"
  have t: "transpose_last2 k = Inr kT" unfolding kT_def by (rule transpose_matrix[OF k])
  have kTs: "shape kT = [d, tk]" by (simp add: kT_def)
  have kTe: "elem kT [c, j] = elem k [j, c]" for c j by (simp add: kT_def swap_last2_def)
  have m: "matmul q kT =
     Inr \<lparr>shape = [tq, tk], elem = (\<lambda>idx. \<Sum>c<d. elem q [idx ! 0, c] * elem k [idx ! 1, c])\<rparr>"
    unfolding matmul_matrix[OF q kTs] kTe ..
  have k1: "shape k ! 1 = d" by (simp add: k)
  show ?thesis
    unfolding scaled_score_def t and_then_Inr m k1 using d by (simp add: div_scalar_def)
qed

lemma scaled_dot_product_matrix:
  assumes q: "shape q = [tq, d]" and k: "shape k = [tk, d]" and v: "shape v = [tk, dv]"
    and d: "0 < d" and tk: "0 < tk"
  shows "\<exists>out w. scaled_dot_product q k v msk = Inr (out, w) \<and>
           shape w = [tq, tk] \<and> shape out = [tq, dv] \<and>
           (\<forall>i j. 0 \<le> elem w [i, j]) \<and>
           (\<forall>i. (\<Sum>j<tk. elem w [i, j]) = 1) \<and>
           (\<forall>i c. elem out [i, c] = (\<Sum>j<tk. elem w [i, j] * elem v [j, c]))"
proof -
  define s where "s = \<lparr>shape = [tq, tk],
          elem = (\<lambda>idx. (\<Sum>c<d. elem q [idx ! 0, c] * elem k [idx ! 1, c]) / sqrt (real d))\<rparr>"
  define w where "w = \<lparr>shape = shape s,
                elem = (\<lambda>idx. exp (elem s idx) / (\<Sum>j<shape s ! 1. exp (elem s (idx[1 := j]))))\<rparr>"
  define out where "out = \<lparr>shape = [tq, dv],
                elem = (\<lambda>idx. \<Sum>j<tk. elem w [idx ! 0, j] * elem v [j, idx ! 1])\<rparr>"
  have ss: "scaled_score q k = Inr s" unfolding s_def by (rule scaled_score_matrix[OF q k d])
  have sw: "softmax s 1 = Inr w" by (simp add: softmax_def w_def s_def)
  have wshape: "shape w = [tq, tk]" by (simp add: w_def s_def)
  have mv: "matmul w v = Inr out" unfolding out_def by (rule matmul_matrix[OF wshape v])
  have sdp: "scaled_dot_product q k v msk = Inr (out, w)"
    unfolding scaled_dot_product_def ss and_then_Inr sw mv ..
  have welem: "elem w [i, j] = exp (elem s [i, j]) / (\<Sum>j'<tk. exp (elem s [i, j']))" for i j
    by (simp add: w_def s_def)
  have pos: "0 < (\<Sum>j'<tk. exp (elem s [i, j']))" for i
    using tk by (intro sum_pos) auto
  have nonneg: "0 \<le> elem w [i, j]" for i j
    unfolding welem using pos[of i] by (simp add: divide_nonneg_pos)
  have one: "(\<Sum>j<tk. elem w [i, j]) = 1" for i
    unfolding welem using pos[of i] by (simp add: sum_divide_distrib[symmetric])
  have oe: "elem out [i, c] = (\<Sum>j<tk. elem w [i, j] * elem v [j, c])" for i c
    by (simp add: out_def)
  have os: "shape out = [tq, dv]" by (simp add: out_def)
  show ?thesis using sdp wshape os nonneg one oe by blast
qed


subsection \<open>The multi-head layer\<close>

lemma MultiheadAttention_forward_cases:
  assumes x: "shape x = [B, T, D]"
    and qin: "in_features (qkv_proj self) = D"
    and qout: "out_features (qkv_proj self) = 3 * E"
    and oin: "in_features (o_proj self) = E"
    and oout: "out_features (o_proj self) = E"
    and heads: "num_heads self * head_dim self = E" "0 < num_heads self"
  shows "(D = E \<longrightarrow> (\<exists>y w. MultiheadAttention_forward self x msk ret = Inr (y, if ret then Some w else None)
                          \<and> shape y = [B, T, E] \<and> shape w = [B, num_heads self, T, T]))
       \<and> (D \<noteq> E \<longrightarrow> MultiheadAttention_forward self x msk ret = Inl RuntimeError)"
proof -
  let ?H = "num_heads self" and ?hd = "head_dim self"
  obtain qkv0 where qkv0: "linear_forward (qkv_proj self) x = Inr qkv0" "shape qkv0 = [B, T, 3 * E]"
    using linear_forward_ok[of x "[B, T]" "qkv_proj self"] x qin qout by auto
  have "prod_list [B, T, ?H, 3 * ?hd] = numel qkv0"
    using heads(1) by (simp add: numel_def qkv0(2) algebra_simps)
  then obtain qkv1 where qkv1: "reshape qkv0 [B, T, ?H, 3 * ?hd] = Inr qkv1"
      "shape qkv1 = [B, T, ?H, 3 * ?hd]"
    using reshape_ok by blast
  obtain qkv where qkv: "permute qkv1 [0, 2, 1, 3] = Inr qkv" "shape qkv = [B, ?H, T, 3 * ?hd]"
    using permute_0213[OF qkv1(2)] by blast
  obtain q k v where parts: "chunk qkv 3 = Inr [q, k, v]"
      "shape q = [B, ?H, T, ?hd]" "shape k = [B, ?H, T, ?hd]" "shape v = [B, ?H, T, ?hd]"
    using chunk3[of qkv "[B, ?H, T]" ?hd] qkv(2) by auto
  have "shape k ! 1 \<noteq> 0" using parts(3) heads(2) by simp
  then obtain values0 attention where sdp: "scaled_dot_product q k v msk = Inr (values0, attention)"
      "shape values0 = [B, ?H, T, ?hd]" "shape attention = [B, ?H, T, T]"
    using scaled_dot_product_shape[of q "[B, ?H]" T ?hd k T v ?hd msk] parts by auto
  obtain values1 where values1: "permute values0 [0, 2, 1, 3] = Inr values1"
      "shape values1 = [B, T, ?H, ?hd]"
    using permute_0213[OF sdp(2)] by blast
  have n1: "numel values1 = B * T * E"
    using heads(1) by (simp add: numel_def values1(2) algebra_simps)
  have start: "MultiheadAttention_forward self x msk ret =
      and_then (reshape values1 [B, T, D]) (\<lambda>values.
      and_then (linear_forward (o_proj self) values) (\<lambda>o_out.
        if ret then Inr (o_out, Some attention) else Inr (o_out, None)))"
    by (simp add: MultiheadAttention_forward_def x qkv0 qkv1 qkv parts sdp values1 del: One_nat_def)
  show ?thesis
  proof (intro conjI impI)
    assume eq: "D = E"
    then have "prod_list [B, T, D] = numel values1" by (simp add: n1)
    then obtain vals where vals: "reshape values1 [B, T, D] = Inr vals" "shape vals = [B, T, D]"
      using reshape_ok by blast
    obtain y where y: "linear_forward (o_proj self) vals = Inr y" "shape y = [B, T, E]"
      using linear_forward_ok[of vals "[B, T]" "o_proj self"] vals(2) oin oout eq by auto
    show "\<exists>y w. MultiheadAttention_forward self x msk ret = Inr (y, if ret then Some w else None)
            \<and> shape y = [B, T, E] \<and> shape w = [B, ?H, T, T]"
      using start vals y sdp(3) by auto
  next
    assume ne: "D \<noteq> E"
    show "MultiheadAttention_forward self x msk ret = Inl RuntimeError"
    proof (cases "prod_list [B, T, D] = numel values1")
      case False
      then show ?thesis by (simp add: start reshape_bad)
    next
      case True
      then obtain vals where vals: "reshape values1 [B, T, D] = Inr vals" "shape vals = [B, T, D]"
        using reshape_ok by blast
      have "linear_forward (o_proj self) vals = Inl RuntimeError"
        using linear_forward_bad[of vals "[B, T]" D "o_proj self"] vals(2) ne oin by simp
      then show ?thesis by (simp add: start vals)
    qed
  qed
qed

lemma MultiheadAttention_init_fields:
  assumes "MultiheadAttention_init D E H wq wo = Inr self"
  shows "in_features (qkv_proj self) = D" "out_features (qkv_proj self) = 3 * E"
    "in_features (o_proj self) = E" "out_features (o_proj self) = E"
    "num_heads self * head_dim self = E" "0 < num_heads self" "num_heads self = H"
    "embed_dim self = E" "head_dim self = E div H"
  using assms
  by (auto simp: MultiheadAttention_init_def reset_parameters_def xavier_uniform_def
      split: if_splits)


text \<open>
  Claim C4. With \<open>embed_dim\<close> divisible by \<open>num_heads\<close>, \<open>forward\<close> maps an input of shape
  \<open>[B, T, input_dim]\<close> to an output of shape \<open>[B, T, embed_dim]\<close>. The constructor takes the
  two dimensions apart and projects from \<open>input_dim\<close> to \<open>3 * embed_dim\<close>, but \<open>forward\<close>
  reshapes the attention output to the last dimension of \<open>x\<close>: for \<open>input_dim = 1\<close>,
  \<open>embed_dim = 2\<close> and one head, the call on an input of shape \<open>[1, 1, 1]\<close> raises.
\<close>

theorem MultiheadAttention_forward_input_dim_example:
  "and_then (MultiheadAttention_init 1 2 1 (\<lambda>i j. 0) (\<lambda>i j. 0))
     (\<lambda>self. MultiheadAttention_forward self (zeros [1, 1, 1]) None False) = Inl RuntimeError"
proof -
  have "MultiheadAttention_forward
          \<lparr>embed_dim = 2, num_heads = 1, head_dim = 2,
           qkv_proj = \<lparr>in_features = 1, out_features = 6, weight = (\<lambda>i j. 0), bias = (\<lambda>j. 0)\<rparr>,
           o_proj = \<lparr>in_features = 2, out_features = 2, weight = (\<lambda>i j. 0), bias = (\<lambda>j. 0)\<rparr>\<rparr>
          (zeros [1, 1, 1]) None False = Inl RuntimeError"
    using MultiheadAttention_forward_cases[where B = 1 and T = 1 and D = 1 and E = 2]
    by (simp add: zeros_def)
  then show ?thesis
    by (simp add: MultiheadAttention_init_def reset_parameters_def xavier_uniform_def)
qed

text \<open>
  Claim C5. The constructor accepts any \<open>input_dim\<close>, but for \<open>input_dim \<noteq> embed_dim\<close> every
  call of \<open>forward\<close> on an input of shape \<open>[B, T, input_dim]\<close> raises a shape error: at the
  final reshape when the input has entries, at the output projection when it has none.
\<close>

theorem MultiheadAttention_forward_needs_embed_dim:
  assumes "MultiheadAttention_init input_dim E H w_qkv w_o = Inr self"
    and "shape x = [B, T, input_dim]"
    and "input_dim \<noteq> E"
  shows "MultiheadAttention_forward self x msk return_attention = Inl RuntimeError"
  using MultiheadAttention_forward_cases[OF assms(2) MultiheadAttention_init_fields(1-6)[OF assms(1)]]
    assms(3) by simp

theorem MultiheadAttention_forward_needs_embed_dim_witness:
  "MultiheadAttention_init 3 4 2 (\<lambda>i j. 1) (\<lambda>i j. 1) =
     Inr \<lparr>embed_dim = 4, num_heads = 2, head_dim = 2,
          qkv_proj = \<lparr>in_features = 3, out_features = 12, weight = (\<lambda>i j. 1), bias = (\<lambda>j. 0)\<rparr>,
          o_proj = \<lparr>in_features = 4, out_features = 4, weight = (\<lambda>i j. 1), bias = (\<lambda>j. 0)\<rparr>\<rparr>
   \<and> MultiheadAttention_forward
        \<lparr>embed_dim = 4, num_heads = 2, head_dim = 2,
         qkv_proj = \<lparr>in_features = 3, out_features = 12, weight = (\<lambda>i j. 1), bias = (\<lambda>j. 0)\<rparr>,
         o_proj = \<lparr>in_features = 4, out_features = 4, weight = (\<lambda>i j. 1), bias = (\<lambda>j. 0)\<rparr>\<rparr>
        (zeros [5, 7, 3]) None False = Inl RuntimeError"
proof -
  have init: "MultiheadAttention_init 3 4 2 (\<lambda>i j. 1) (\<lambda>i j. 1) =
     Inr \<lparr>embed_dim = 4, num_heads = 2, head_dim = 2,
          qkv_proj = \<lparr>in_features = 3, out_features = 12, weight = (\<lambda>i j. 1), bias = (\<lambda>j. 0)\<rparr>,
          o_proj = \<lparr>in_features = 4, out_features = 4, weight = (\<lambda>i j. 1), bias = (\<lambda>j. 0)\<rparr>\<rparr>"
    by (simp add: MultiheadAttention_init_def reset_parameters_def xavier_uniform_def)
  have x: "shape (zeros [5, 7, 3]) = [5, 7, 3]" by (simp add: zeros_def)
  have ne: "(3 :: nat) \<noteq> 4" by simp
  show ?thesis
    using init MultiheadAttention_forward_needs_embed_dim[OF init x ne] by simp
qed

text \<open>
  A pair that passes the divisibility test does not always construct: with \<open>embed_dim = 0\<close>
  the output projection has a weight of no rows and no columns, and \<open>_reset_parameters\<close>
  raises.
\<close>

theorem MultiheadAttention_init_zero_embed_dim_counterexample:
  "MultiheadAttention_init 3 0 1 (\<lambda>i j. 0) (\<lambda>i j. 0) = Inl ZeroDivisionError"
  by (simp add: MultiheadAttention_init_def reset_parameters_def xavier_uniform_def)

text \<open>
  Claim C6. Constructing the layer with an \<open>embed_dim\<close> that \<open>num_heads\<close> does not divide
  exactly raises at construction, and construction succeeds for every dividing pair.
  Divisibility is that of the program's test \<open>embed_dim % num_heads == 0\<close>, which has no value
  for \<open>num_heads = 0\<close>: that test raises ZeroDivisionError, and a non-zero remainder fails the
  assertion. As amended: construction succeeds for every dividing pair with
  \<open>embed_dim \<ge> 1\<close>, and the layer then has \<open>num_heads * head_dim = embed_dim\<close>; for
  \<open>embed_dim = 0\<close>, which every \<open>num_heads \<ge> 1\<close> divides, it raises ZeroDivisionError in
  \<open>_reset_parameters\<close>.
\<close>

theorem MultiheadAttention_init_divisibility:
  "(0 < H \<and> H dvd E \<and> 0 < E \<longrightarrow>
      (\<exists>self. MultiheadAttention_init input_dim E H w_qkv w_o = Inr self
         \<and> num_heads self = H \<and> embed_dim self = E \<and> num_heads self * head_dim self = E))
   \<and> (0 < H \<and> \<not> H dvd E \<longrightarrow> MultiheadAttention_init input_dim E H w_qkv w_o = Inl AssertionError)
   \<and> (H = 0 \<longrightarrow> MultiheadAttention_init input_dim E H w_qkv w_o = Inl ZeroDivisionError)
   \<and> (0 < H \<and> E = 0 \<longrightarrow> MultiheadAttention_init input_dim E H w_qkv w_o = Inl ZeroDivisionError)"
  by (auto simp: MultiheadAttention_init_def reset_parameters_def xavier_uniform_def
      dvd_eq_mod_eq_0)

theorem MultiheadAttention_init_divisibility_witness:
  "(\<exists>self. MultiheadAttention_init 10 128 4 (\<lambda>i j. 0) (\<lambda>i j. 0) = Inr self
       \<and> num_heads self = 4 \<and> embed_dim self = 128 \<and> num_heads self * head_dim self = 128)
   \<and> MultiheadAttention_init 10 128 5 (\<lambda>i j. 0) (\<lambda>i j. 0) = Inl AssertionError
   \<and> MultiheadAttention_init 10 128 0 (\<lambda>i j. 0) (\<lambda>i j. 0) = Inl ZeroDivisionError
   \<and> MultiheadAttention_init 10 0 4 (\<lambda>i j. 0) (\<lambda>i j. 0) = Inl ZeroDivisionError"
proof -
  have a: "0 < (4 :: nat) \<and> (4 :: nat) dvd 128 \<and> 0 < (128 :: nat)" by simp
  have b: "0 < (5 :: nat) \<and> \<not> (5 :: nat) dvd 128" by simp
  have c: "0 < (4 :: nat) \<and> (0 :: nat) = 0" by simp
  show ?thesis
    using a b c
      MultiheadAttention_init_divisibility[of 4 128 10 "\<lambda>i j. 0" "\<lambda>i j. 0"]
      MultiheadAttention_init_divisibility[of 5 128 10 "\<lambda>i j. 0" "\<lambda>i j. 0"]
      MultiheadAttention_init_divisibility[of 0 128 10 "\<lambda>i j. 0" "\<lambda>i j. 0"]
      MultiheadAttention_init_divisibility[of 4 0 10 "\<lambda>i j. 0" "\<lambda>i j. 0"]
    by blast
qed

section \<open>The encoder block\<close>

lemma and_then_assoc: "and_then (and_then r f) g = and_then r (\<lambda>x. and_then (f x) g)"
  by (cases r) simp_all

lemma dropout_shape [simp]: "shape (dropout p tr keep x) = shape x"
  by (simp add: dropout_def)

lemma relu_shape [simp]: "shape (relu x) = shape x"
  by (simp add: relu_def tensor_map_def)

lemma max_divide_pos: "0 < c \<Longrightarrow> max 0 (v / c) = max 0 v / (c :: real)"
  by (simp add: max_def field_simps)

lemma relu_dropout:
  assumes "0 \<le> p" and "p \<le> 1"
  shows "relu (dropout p tr keep h) = dropout p tr keep (relu h)"
proof (cases "p = 1 \<or> p = 0 \<or> \<not> tr")
  case True
  then show ?thesis by (auto simp: relu_def dropout_def tensor_map_def)
next
  case False
  then have "0 < 1 - p" using assms by simp
  then have "\<And>v. max 0 (v / (1 - p)) = max 0 v / (1 - p)" by (rule max_divide_pos)
  then show ?thesis using False by (auto simp: relu_def dropout_def tensor_map_def fun_eq_iff)
qed

lemma tensor_add_same_shape:
  "shape a = s \<Longrightarrow> shape b = s \<Longrightarrow> \<exists>y. tensor_add a b = Inr y \<and> shape y = s"
  by (simp add: tensor_add_def tensor_binop_def broadcast_shapes_same)

lemma layer_norm_forward_ok:
  "shape x = s @ [normalized_shape nrm] \<Longrightarrow> \<exists>y. layer_norm_forward nrm x = Inr y \<and> shape y = shape x"
  by (simp add: layer_norm_forward_def)

lemma Dropout_init_range: "Dropout_init p = Inr p' \<Longrightarrow> p' = p \<and> 0 \<le> p \<and> p \<le> 1"
  by (auto simp: Dropout_init_def split: if_splits)

lemma EncoderBlock_init_fields:
  assumes "EncoderBlock_init D H F p params = Inr blk"
  shows "MultiheadAttention_init D D H (attn_w_qkv params) (attn_w_o params) = Inr (self_attn blk)"
    and "in_features (linear_net_0 blk) = D" and "out_features (linear_net_0 blk) = F"
    and "in_features (linear_net_3 blk) = F" and "out_features (linear_net_3 blk) = D"
    and "normalized_shape (norm1 blk) = D" and "normalized_shape (norm2 blk) = D"
    and "0 \<le> linear_net_1 blk" and "linear_net_1 blk \<le> 1"
    and "0 \<le> dropout_p blk" and "dropout_p blk \<le> 1" and "training blk"
  using assms
  by (auto simp: EncoderBlock_init_def and_then_def LayerNorm_init_def
      split: sum.splits dest!: Dropout_init_range)

lemma linear_net_spec:
  assumes "0 \<le> linear_net_1 self" and "linear_net_1 self \<le> 1"
  shows "linear_net self keep x =
     and_then (linear_forward (linear_net_0 self) x) (\<lambda>h.
       linear_forward (linear_net_3 self) (dropout (linear_net_1 self) (training self) keep (relu h)))"
  by (simp add: linear_net_def relu_dropout[OF assms])

lemma EncoderBlock_forward_eq_spec:
  assumes "0 \<le> linear_net_1 self" and "linear_net_1 self \<le> 1"
  shows "EncoderBlock_forward self rnd x msk = spec_encoder_block self rnd x msk"
  by (simp add: EncoderBlock_forward_def spec_encoder_block_def spec_step1_def spec_step2_def
      linear_net_spec[OF assms] and_then_assoc split_def)


lemma EncoderBlock_train_fields [simp]:
  "self_attn (EncoderBlock_train mode b) = self_attn b"
  "linear_net_0 (EncoderBlock_train mode b) = linear_net_0 b"
  "linear_net_1 (EncoderBlock_train mode b) = linear_net_1 b"
  "linear_net_3 (EncoderBlock_train mode b) = linear_net_3 b"
  "norm1 (EncoderBlock_train mode b) = norm1 b"
  "norm2 (EncoderBlock_train mode b) = norm2 b"
  "dropout_p (EncoderBlock_train mode b) = dropout_p b"
  "training (EncoderBlock_train mode b) = mode"
  by (simp_all add: EncoderBlock_train_def)

lemma EncoderBlock_forward_shape:
  assumes attn: "MultiheadAttention_init D D H wq wo = Inr (self_attn self)"
    and l0: "in_features (linear_net_0 self) = D" "out_features (linear_net_0 self) = F"
    and l3: "in_features (linear_net_3 self) = F" "out_features (linear_net_3 self) = D"
    and n1: "normalized_shape (norm1 self) = D" and n2: "normalized_shape (norm2 self) = D"
    and x: "shape x = [B, T, D]"
  shows "\<exists>y. EncoderBlock_forward self rnd x msk = Inr y \<and> shape y = [B, T, D]"
proof -
  obtain attn_out where a: "MultiheadAttention_forward (self_attn self) x msk False = Inr (attn_out, None)"
      "shape attn_out = [B, T, D]"
    using MultiheadAttention_forward_cases[OF x MultiheadAttention_init_fields(1-6)[OF attn],
        of msk False] by auto
  obtain x1 where x1: "tensor_add x (dropout (dropout_p self) (training self) (keep_attn rnd) attn_out) = Inr x1"
      "shape x1 = [B, T, D]"
    using tensor_add_same_shape[of x "[B, T, D]"
        "dropout (dropout_p self) (training self) (keep_attn rnd) attn_out"] x a(2) by auto
  obtain x2 where x2: "layer_norm_forward (norm1 self) x1 = Inr x2" "shape x2 = [B, T, D]"
    using layer_norm_forward_ok[of x1 "[B, T]" "norm1 self"] x1(2) n1 by auto
  obtain h0 where h0: "linear_forward (linear_net_0 self) x2 = Inr h0" "shape h0 = [B, T, F]"
    using linear_forward_ok[of x2 "[B, T]" "linear_net_0 self"] x2(2) l0 by auto
  obtain linear_out where lo: "linear_net self (keep_ff rnd) x2 = Inr linear_out"
      "shape linear_out = [B, T, D]"
    using linear_forward_ok[of "relu (dropout (linear_net_1 self) (training self) (keep_ff rnd) h0)"
        "[B, T]" "linear_net_3 self"] h0 l3 by (auto simp: linear_net_def)
  obtain x3 where x3: "tensor_add x2 (dropout (dropout_p self) (training self) (keep_out rnd) linear_out) = Inr x3"
      "shape x3 = [B, T, D]"
    using tensor_add_same_shape[of x2 "[B, T, D]"
        "dropout (dropout_p self) (training self) (keep_out rnd) linear_out"] x2(2) lo(2) by auto
  obtain y where y: "layer_norm_forward (norm2 self) x3 = Inr y" "shape y = [B, T, D]"
    using layer_norm_forward_ok[of x3 "[B, T]" "norm2 self"] x3(2) n2 by auto
  show ?thesis
    by (simp add: EncoderBlock_forward_def a x1 x2 lo x3 y)
qed

text \<open>
  Claim C8. For an input of shape \<open>[B, T, D]\<close> and a block built for \<open>input_dim = D\<close>,
  \<open>forward\<close> computes the two post-norm residual steps of the specification and returns a
  tensor of shape \<open>[B, T, D]\<close>. The program's \<open>linear_net\<close> applies the dropout layer before the
  ReLU and the specification after it; the two orders give the same tensor for the same
  dropout noise, since dropout scales by a non-negative factor. The statement holds in both
  modes of the module.
\<close>

theorem EncoderBlock_forward_post_norm:
  assumes init: "EncoderBlock_init D H F p params = Inr blk"
    and x: "shape x = [B, T, D]"
  shows "EncoderBlock_forward (EncoderBlock_train mode blk) rnd x msk
           = spec_encoder_block (EncoderBlock_train mode blk) rnd x msk
       \<and> (\<exists>y. EncoderBlock_forward (EncoderBlock_train mode blk) rnd x msk = Inr y
              \<and> shape y = [B, T, D])"
proof
  show "EncoderBlock_forward (EncoderBlock_train mode blk) rnd x msk
           = spec_encoder_block (EncoderBlock_train mode blk) rnd x msk"
    using EncoderBlock_init_fields(8,9)[OF init] by (intro EncoderBlock_forward_eq_spec) simp_all
  show "\<exists>y. EncoderBlock_forward (EncoderBlock_train mode blk) rnd x msk = Inr y
              \<and> shape y = [B, T, D]"
    using EncoderBlock_init_fields(1-7)[OF init] x
    by (intro EncoderBlock_forward_shape[where H = H and F = F]) simp_all
qed

lemma EncoderBlock_init_example:
  "\<exists>blk. EncoderBlock_init 4 2 8 (1 / 10)
      \<lparr>attn_w_qkv = (\<lambda>i j. 1), attn_w_o = (\<lambda>i j. 1), ff_w0 = (\<lambda>i j. 1), ff_b0 = (\<lambda>j. 0),
       ff_w3 = (\<lambda>i j. 1), ff_b3 = (\<lambda>j. 0)\<rparr> = Inr blk"
  by (simp add: EncoderBlock_init_def MultiheadAttention_init_def reset_parameters_def
      xavier_uniform_def Dropout_init_def)

theorem EncoderBlock_forward_post_norm_witness:
  "\<exists>blk. EncoderBlock_init 4 2 8 (1 / 10)
      \<lparr>attn_w_qkv = (\<lambda>i j. 1), attn_w_o = (\<lambda>i j. 1), ff_w0 = (\<lambda>i j. 1), ff_b0 = (\<lambda>j. 0),
       ff_w3 = (\<lambda>i j. 1), ff_b3 = (\<lambda>j. 0)\<rparr> = Inr blk
     \<and> EncoderBlock_forward (EncoderBlock_train True blk)
          \<lparr>keep_attn = (\<lambda>idx. True), keep_ff = (\<lambda>idx. even (last idx)), keep_out = (\<lambda>idx. True)\<rparr>
          (zeros [2, 3, 4]) None
        = spec_encoder_block (EncoderBlock_train True blk)
          \<lparr>keep_attn = (\<lambda>idx. True), keep_ff = (\<lambda>idx. even (last idx)), keep_out = (\<lambda>idx. True)\<rparr>
          (zeros [2, 3, 4]) None
     \<and> (\<exists>y. EncoderBlock_forward (EncoderBlock_train True blk)
          \<lparr>keep_attn = (\<lambda>idx. True), keep_ff = (\<lambda>idx. even (last idx)), keep_out = (\<lambda>idx. True)\<rparr>
          (zeros [2, 3, 4]) None = Inr y \<and> shape y = [2, 3, 4])"
proof -
  obtain blk where init: "EncoderBlock_init 4 2 8 (1 / 10)
      \<lparr>attn_w_qkv = (\<lambda>i j. 1), attn_w_o = (\<lambda>i j. 1), ff_w0 = (\<lambda>i j. 1), ff_b0 = (\<lambda>j. 0),
       ff_w3 = (\<lambda>i j. 1), ff_b3 = (\<lambda>j. 0)\<rparr> = Inr blk"
    using EncoderBlock_init_example by blast
  have x: "shape (zeros [2, 3, 4]) = [2, 3, 4]" by (simp add: zeros_def)
  show ?thesis
    using init EncoderBlock_forward_post_norm[OF init x, of True
        "\<lparr>keep_attn = (\<lambda>idx. True), keep_ff = (\<lambda>idx. even (last idx)), keep_out = (\<lambda>idx. True)\<rparr>" None]
    by blast
qed

section \<open>The encoder stack\<close>

lemma MultiheadAttention_forward_mask:
  "MultiheadAttention_forward self x msk r = MultiheadAttention_forward self x None r"
  by (simp add: MultiheadAttention_forward_def scaled_dot_product_def)

lemma EncoderBlock_forward_mask:
  "EncoderBlock_forward self rnd x msk = EncoderBlock_forward self rnd x None"
  by (simp add: EncoderBlock_forward_def MultiheadAttention_forward_mask[of "self_attn self" x msk])

lemma and_then_Inr_id [simp]: "and_then r Inr = r"
  by (cases r) simp_all

lemma MultiheadAttention_forward_via_True:
  "MultiheadAttention_forward self x msk r =
     and_then (MultiheadAttention_forward self x msk True) (\<lambda>(y, a). Inr (y, if r then a else None))"
  by (cases r) (simp_all add: MultiheadAttention_forward_def and_then_assoc split_def)

lemma MultiheadAttention_forward_True_Some:
  "MultiheadAttention_forward self x msk True = Inr (y, a) \<Longrightarrow> \<exists>w. a = Some w"
  by (auto simp: MultiheadAttention_forward_def and_then_def split: sum.splits prod.splits)

lemma MultiheadAttention_forward_flag:
  "(\<exists>e. \<forall>r. MultiheadAttention_forward self x msk r = Inl e) \<or>
   (\<exists>y w. \<forall>r. MultiheadAttention_forward self x msk r = Inr (y, if r then Some w else None))"
proof (cases "MultiheadAttention_forward self x msk True")
  case (Inl e)
  have "MultiheadAttention_forward self x msk r = Inl e" for r
    by (subst MultiheadAttention_forward_via_True) (simp add: Inl)
  then show ?thesis by blast
next
  case (Inr p)
  obtain y a where p: "p = (y, a)" by (cases p)
  obtain w where w: "a = Some w"
    using MultiheadAttention_forward_True_Some Inr p by blast
  have "MultiheadAttention_forward self x msk r = Inr (y, if r then Some w else None)" for r
    by (subst MultiheadAttention_forward_via_True) (simp add: Inr p w)
  then show ?thesis by blast
qed

lemma TransformerEncoder_forward_snoc:
  "TransformerEncoder_forward (layers @ [layer]) rnd x msk =
     and_then (TransformerEncoder_forward layers rnd x msk)
       (\<lambda>y. EncoderBlock_forward layer (rnd (length layers)) y msk)"
  by (induction layers arbitrary: rnd x) (simp_all add: and_then_assoc)

lemma attention_maps_loop_forward:
  "and_then (attention_maps_loop layers rnd acc x msk) (\<lambda>(maps, x'). Inr x') =
     TransformerEncoder_forward layers rnd x msk"
proof (induction layers arbitrary: rnd acc x)
  case Nil
  show ?case by simp
next
  case (Cons layer layers)
  from MultiheadAttention_forward_flag[of "self_attn layer" x msk]
  show ?case
  proof (elim disjE exE)
    fix e assume "\<forall>r. MultiheadAttention_forward (self_attn layer) x msk r = Inl e"
    then show ?thesis by (simp add: EncoderBlock_forward_def)
  next
    fix y w
    assume "\<forall>r. MultiheadAttention_forward (self_attn layer) x msk r = Inr (y, if r then Some w else None)"
    then show ?thesis
      using Cons.IH EncoderBlock_forward_mask[of layer "rnd 0" x msk]
      by (simp add: and_then_assoc)
  qed
qed

lemma attention_maps_loop_maps:
  assumes "attention_maps_loop layers rnd acc x msk = Inr (maps, y)"
  shows "length maps = length acc + length layers \<and> take (length acc) maps = acc \<and>
     (\<forall>i<length layers. \<exists>xi out.
        TransformerEncoder_forward (take i layers) rnd x msk = Inr xi \<and>
        MultiheadAttention_forward (self_attn (layers ! i)) xi msk True
          = Inr (out, Some (maps ! (length acc + i))))"
  using assms
proof (induction layers arbitrary: rnd acc x)
  case Nil
  then show ?case by simp
next
  case (Cons layer layers)
  from Cons.prems obtain r where r: "MultiheadAttention_forward (self_attn layer) x msk True = Inr r"
    by (cases "MultiheadAttention_forward (self_attn layer) x msk True") simp_all
  from Cons.prems r obtain out w where w: "r = (out, Some w)"
    by (cases r; cases "snd r") auto
  from Cons.prems r w obtain x' where x': "EncoderBlock_forward layer (rnd 0) x None = Inr x'"
    by (cases "EncoderBlock_forward layer (rnd 0) x None") simp_all
  have rest: "attention_maps_loop layers (\<lambda>i. rnd (Suc i)) (acc @ [w]) x' msk = Inr (maps, y)"
    using Cons.prems r w x' by simp
  note IH = Cons.IH[OF rest]
  have len: "length maps = length acc + length (layer # layers)" using IH by simp
  have tk: "take (Suc (length acc)) maps = acc @ [w]" using IH by simp
  have tk0: "take (length acc) maps = acc"
    using arg_cong[OF tk, of "take (length acc)"] by (simp add: min_def)
  have at: "maps ! length acc = w"
    using arg_cong[OF tk, of "\<lambda>xs. xs ! length acc"] len by simp
  have step: "\<And>ls. TransformerEncoder_forward (layer # ls) rnd x msk =
      TransformerEncoder_forward ls (\<lambda>i. rnd (Suc i)) x' msk"
    using x' EncoderBlock_forward_mask[of layer "rnd 0" x msk] by simp
  have "\<exists>xi out. TransformerEncoder_forward (take i (layer # layers)) rnd x msk = Inr xi \<and>
        MultiheadAttention_forward (self_attn ((layer # layers) ! i)) xi msk True
          = Inr (out, Some (maps ! (length acc + i)))" if "i < length (layer # layers)" for i
  proof (cases i)
    case 0
    then show ?thesis using r w at by simp
  next
    case (Suc j)
    then have "j < length layers" using that by simp
    with IH obtain xi out' where
      "TransformerEncoder_forward (take j layers) (\<lambda>i. rnd (Suc i)) x' msk = Inr xi"
      "MultiheadAttention_forward (self_attn (layers ! j)) xi msk True
          = Inr (out', Some (maps ! (length (acc @ [w]) + j)))"
      by blast
    then show ?thesis using Suc step[of "take j layers"] by simp
  qed
  then show ?case using len tk0 by blast
qed


text \<open>The loop on a list of blocks begins with the loop on any prefix of the list: the state
  after the first blocks is the result of the loop on these blocks alone.\<close>

lemma attention_maps_loop_append:
  "attention_maps_loop (ls1 @ ls2) rnd acc x msk =
     and_then (attention_maps_loop ls1 rnd acc x msk)
       (\<lambda>(maps, x'). attention_maps_loop ls2 (\<lambda>i. rnd (length ls1 + i)) maps x' msk)"
  by (induction ls1 arbitrary: rnd acc x) (simp_all add: and_then_assoc)

lemma TransformerEncoder_forward_shape:
  assumes "\<forall>layer \<in> set layers. \<exists>H F p params mode blk.
             EncoderBlock_init D H F p params = Inr blk \<and> layer = EncoderBlock_train mode blk"
    and "shape x = [B, T, D]"
  shows "\<exists>y. TransformerEncoder_forward layers rnd x msk = Inr y \<and> shape y = [B, T, D]"
  using assms
proof (induction layers arbitrary: rnd x)
  case Nil
  then show ?case by simp
next
  case (Cons layer layers)
  then obtain H F p params mode blk where
    blk: "EncoderBlock_init D H F p params = Inr blk" "layer = EncoderBlock_train mode blk"
    by auto
  have "\<exists>y. EncoderBlock_forward layer (rnd 0) x msk = Inr y \<and> shape y = [B, T, D]"
    unfolding blk(2) using EncoderBlock_init_fields(1-7)[OF blk(1)] Cons.prems(2)
    by (intro EncoderBlock_forward_shape[where H = H and F = F]) simp_all
  then obtain x' where x': "EncoderBlock_forward layer (rnd 0) x msk = Inr x'" "shape x' = [B, T, D]"
    by blast
  show ?case using Cons.IH[of x' "\<lambda>i. rnd (Suc i)"] Cons.prems(1) x' by simp
qed

text \<open>
  Claim C7. \<open>forward\<close> applies the blocks one after the other, each on the output of the
  one before. \<open>get_attention_maps\<close> advances through the same intermediate values of \<open>x\<close> and
  ends on the output of \<open>forward\<close> (or on the same error); when \<open>forward\<close> returns, it returns
  one attention-weight tensor for each block, and the tensor of block \<open>i\<close> is the weights that
  the self-attention of that block produces on the output of the first \<open>i\<close> blocks. The loop
  calls each block without the mask; that changes nothing, as the attention core does not
  read the mask. The statement holds for any mode of the blocks, for the same dropout noise.
\<close>

theorem TransformerEncoder_attention_maps:
  "TransformerEncoder_forward (layers @ [layer]) rnd x msk =
     and_then (TransformerEncoder_forward layers rnd x msk)
       (\<lambda>y. EncoderBlock_forward layer (rnd (length layers)) y msk)
   \<and> and_then (attention_maps_loop layers rnd [] x msk) (\<lambda>(maps, x'). Inr x') =
       TransformerEncoder_forward layers rnd x msk
   \<and> (TransformerEncoder_forward layers rnd x msk = Inr y \<longrightarrow>
       (\<exists>maps. get_attention_maps layers rnd x msk = Inr maps \<and> length maps = length layers \<and>
          (\<forall>i<length layers. \<exists>xi out.
              TransformerEncoder_forward (take i layers) rnd x msk = Inr xi \<and>
              MultiheadAttention_forward (self_attn (layers ! i)) xi msk True
                = Inr (out, Some (maps ! i)))))"
proof (intro conjI impI)
  show "TransformerEncoder_forward (layers @ [layer]) rnd x msk =
     and_then (TransformerEncoder_forward layers rnd x msk)
       (\<lambda>y. EncoderBlock_forward layer (rnd (length layers)) y msk)"
    by (rule TransformerEncoder_forward_snoc)
  show same: "and_then (attention_maps_loop layers rnd [] x msk) (\<lambda>(maps, x'). Inr x') =
       TransformerEncoder_forward layers rnd x msk"
    by (rule attention_maps_loop_forward)
  assume y: "TransformerEncoder_forward layers rnd x msk = Inr y"
  obtain maps where loop: "attention_maps_loop layers rnd [] x msk = Inr (maps, y)"
    using same y by (cases "attention_maps_loop layers rnd [] x msk") auto
  have "get_attention_maps layers rnd x msk = Inr maps"
    by (simp add: get_attention_maps_def loop)
  then show "\<exists>maps. get_attention_maps layers rnd x msk = Inr maps \<and> length maps = length layers \<and>
          (\<forall>i<length layers. \<exists>xi out.
              TransformerEncoder_forward (take i layers) rnd x msk = Inr xi \<and>
              MultiheadAttention_forward (self_attn (layers ! i)) xi msk True
                = Inr (out, Some (maps ! i)))"
    using attention_maps_loop_maps[OF loop] by auto
qed

theorem TransformerEncoder_attention_maps_witness:
  "\<exists>blk maps xi out.
     EncoderBlock_init 4 2 8 (1 / 10)
       \<lparr>attn_w_qkv = (\<lambda>i j. 1), attn_w_o = (\<lambda>i j. 1), ff_w0 = (\<lambda>i j. 1), ff_b0 = (\<lambda>j. 0),
        ff_w3 = (\<lambda>i j. 1), ff_b3 = (\<lambda>j. 0)\<rparr> = Inr blk
     \<and> get_attention_maps [EncoderBlock_train False blk, EncoderBlock_train False blk]
          (\<lambda>i. \<lparr>keep_attn = (\<lambda>idx. True), keep_ff = (\<lambda>idx. True), keep_out = (\<lambda>idx. True)\<rparr>)
          (zeros [2, 3, 4]) (Some (zeros [3, 3])) = Inr maps
     \<and> length maps = 2
     \<and> TransformerEncoder_forward [EncoderBlock_train False blk]
          (\<lambda>i. \<lparr>keep_attn = (\<lambda>idx. True), keep_ff = (\<lambda>idx. True), keep_out = (\<lambda>idx. True)\<rparr>)
          (zeros [2, 3, 4]) (Some (zeros [3, 3])) = Inr xi
     \<and> MultiheadAttention_forward (self_attn blk) xi (Some (zeros [3, 3])) True
          = Inr (out, Some (maps ! 1))"
proof -
  let ?rnd = "\<lambda>i :: nat. \<lparr>keep_attn = (\<lambda>idx. True), keep_ff = (\<lambda>idx. True), keep_out = (\<lambda>idx. True)\<rparr>"
  obtain blk where init: "EncoderBlock_init 4 2 8 (1 / 10)
      \<lparr>attn_w_qkv = (\<lambda>i j. 1), attn_w_o = (\<lambda>i j. 1), ff_w0 = (\<lambda>i j. 1), ff_b0 = (\<lambda>j. 0),
       ff_w3 = (\<lambda>i j. 1), ff_b3 = (\<lambda>j. 0)\<rparr> = Inr blk"
    using EncoderBlock_init_example by blast
  let ?layers = "[EncoderBlock_train False blk, EncoderBlock_train False blk]"
  have "\<forall>layer \<in> set ?layers. \<exists>H F p params mode b.
          EncoderBlock_init 4 H F p params = Inr b \<and> layer = EncoderBlock_train mode b"
    using init by (simp del: ex_simps) blast
  moreover have "shape (zeros [2, 3, 4]) = [2, 3, 4]" by (simp add: zeros_def)
  ultimately obtain y where
    y: "TransformerEncoder_forward ?layers ?rnd (zeros [2, 3, 4]) (Some (zeros [3, 3])) = Inr y"
    using TransformerEncoder_forward_shape[of ?layers 4 "zeros [2, 3, 4]" 2 3 ?rnd "Some (zeros [3, 3])"]
    by blast
  from TransformerEncoder_attention_maps[of ?layers "EncoderBlock_train False blk" ?rnd
      "zeros [2, 3, 4]" "Some (zeros [3, 3])" y] y
  obtain maps where maps: "get_attention_maps ?layers ?rnd (zeros [2, 3, 4]) (Some (zeros [3, 3])) = Inr maps"
      "length maps = length ?layers"
      "\<forall>i<length ?layers. \<exists>xi out.
          TransformerEncoder_forward (take i ?layers) ?rnd (zeros [2, 3, 4]) (Some (zeros [3, 3])) = Inr xi \<and>
          MultiheadAttention_forward (self_attn (?layers ! i)) xi (Some (zeros [3, 3])) True
            = Inr (out, Some (maps ! i))"
    by blast
  have "1 < length ?layers" by simp
  from maps(3)[rule_format, OF this] obtain xi out where step:
    "TransformerEncoder_forward (take 1 ?layers) ?rnd (zeros [2, 3, 4]) (Some (zeros [3, 3])) = Inr xi"
    "MultiheadAttention_forward (self_attn (?layers ! 1)) xi (Some (zeros [3, 3])) True
       = Inr (out, Some (maps ! 1))"
    by blast
  have t1: "take 1 ?layers = [EncoderBlock_train False blk]" by simp
  have n1: "self_attn (?layers ! 1) = self_attn blk" by simp
  have l2: "length maps = 2" using maps(2) by simp
  show ?thesis
    using init maps(1) l2 step(1)[unfolded t1] step(2)[unfolded n1] by blast
qed

section \<open>The positional encoding\<close>

lemma tensor_binop_ok:
  "broadcast_shapes (shape a) (shape b) = Some s \<Longrightarrow>
   tensor_binop f a b =
     Inr \<lparr>shape = s, elem = (\<lambda>idx. f (elem a (bidx (shape a) idx)) (elem b (bidx (shape b) idx)))\<rparr>"
  by (simp add: tensor_binop_def)

lemma bidx2: "bidx [m, n] [i, j] = [if m = Suc 0 then 0 else i, if n = Suc 0 then 0 else j]"
  by (simp add: bidx_def)

lemma bidx2_in_range: "i < m \<Longrightarrow> j < n \<Longrightarrow> bidx [m, n] [i, j] = [i, j]"
  by (auto simp: bidx_def)

lemma bidx1_of2: "bidx [n] [i, j] = [if n = Suc 0 then 0 else j]"
  by (simp add: bidx_def)

lemma broadcast_col_row: "broadcast_shapes [L, Suc 0] [h] = Some [L, h]"
  by (simp add: broadcast_shapes_def)

lemma position_shape: "shape (unsqueeze (Suc 0) (arange L (Suc 0))) = [L, Suc 0]"
  by (simp add: unsqueeze_def arange_def)

lemma position_elem: "elem (unsqueeze (Suc 0) (arange L (Suc 0))) [i, j] = real i"
  by (simp add: unsqueeze_def arange_def)

lemma div_term_shape: "shape (div_term d) = [(d + 1) div 2]"
  by (simp add: div_term_def tensor_map_def arange_def)

lemma div_term_elem: "elem (div_term d) [c] = exp (real (2 * c) * (- ln 10000 / real d))"
  by (simp add: div_term_def tensor_map_def arange_def mult.commute)

lemma angles:
  "\<exists>A. tensor_mul (unsqueeze (Suc 0) (arange L (Suc 0))) (div_term d) = Inr A \<and>
       shape A = [L, (d + 1) div 2] \<and>
       (\<forall>pos c. pos < L \<longrightarrow> c < (d + 1) div 2 \<longrightarrow>
          elem A [pos, c] = real pos * exp (real (2 * c) * (- ln 10000 / real d)))"
proof -
  define A where "A = \<lparr>shape = [L, (d + 1) div 2],
      elem = (\<lambda>idx. elem (unsqueeze (Suc 0) (arange L (Suc 0))) (bidx [L, Suc 0] idx) *
                     elem (div_term d) (bidx [(d + 1) div 2] idx))\<rparr>"
  have "tensor_mul (unsqueeze (Suc 0) (arange L (Suc 0))) (div_term d) = Inr A"
    unfolding tensor_mul_def A_def
    by (subst tensor_binop_ok[where s = "[L, (d + 1) div 2]"])
       (simp_all only: position_shape div_term_shape broadcast_col_row)
  moreover have "shape A = [L, (d + 1) div 2]" by (simp only: A_def tensor.select_convs)
  moreover have "elem A [pos, c] = real pos * exp (real (2 * c) * (- ln 10000 / real d))"
    if "pos < L" and "c < (d + 1) div 2" for pos c
  proof -
    have 1: "elem (unsqueeze (Suc 0) (arange L (Suc 0))) (bidx [L, Suc 0] [pos, c]) = real pos"
      using that(1) by (simp add: bidx2 position_elem)
    have 2: "bidx [(d + 1) div 2] [pos, c] = [c]" using that(2) by (auto simp: bidx1_of2)
    show ?thesis by (simp only: A_def tensor.select_convs 1 2 div_term_elem)
  qed
  ultimately show ?thesis by blast
qed

lemma assign_cols_ok:
  assumes "shape dst = [L, d]"
    and "broadcast_shapes (shape src) [L, (d + 1 - start) div 2] = Some [L, (d + 1 - start) div 2]"
  shows "assign_cols dst start src =
     Inr \<lparr>shape = [L, d],
          elem = (\<lambda>idx. if start \<le> idx ! 1 \<and> (idx ! 1 - start) mod 2 = 0
                         then elem src (bidx (shape src) [idx ! 0, (idx ! 1 - start) div 2])
                         else elem dst idx)\<rparr>"
  using assms by (simp add: assign_cols_def)

lemma assign_cols_bad:
  assumes "shape dst = [L, d]"
    and "broadcast_shapes (shape src) [L, (d + 1 - start) div 2] \<noteq> Some [L, (d + 1 - start) div 2]"
  shows "assign_cols dst start src = Inl RuntimeError"
  using assms by (simp add: assign_cols_def)

lemma broadcast_slice_odd:
  "broadcast_shapes [L, (d + 1) div 2] [L, d div 2] = Some [L, d div 2] \<longleftrightarrow> even d \<or> d = 1"
proof (cases "even d")
  case True
  then have "(d + 1) div 2 = d div 2" by simp
  with True show ?thesis by (simp add: broadcast_shapes_same)
next
  case False
  then have h: "(d + 1) div 2 = Suc (d div 2)" by simp
  show ?thesis
  proof (cases "d = 1")
    case True
    then show ?thesis by (simp add: broadcast_shapes_def)
  next
    case False
    with \<open>odd d\<close> have "d div 2 \<noteq> 0" by (metis One_nat_def div_eq_0_iff nat_neq_iff not_less_eq numeral_2_eq_2 less_Suc_eq odd_pos)
    with False \<open>odd d\<close> show ?thesis by (auto simp: broadcast_shapes_def h split: if_splits)
  qed
qed

lemma PositionalEncoding_init_cases:
  "(d = 0 \<longrightarrow> PositionalEncoding_init d L = Inl ZeroDivisionError) \<and>
   (0 < d \<and> odd d \<and> d \<noteq> 1 \<longrightarrow> PositionalEncoding_init d L = Inl RuntimeError) \<and>
   (0 < d \<and> (even d \<or> d = 1) \<longrightarrow>
      (\<exists>self. PositionalEncoding_init d L = Inr self \<and> shape (pe self) = [1, L, d] \<and>
         (\<forall>pos i. pos < L \<longrightarrow> 2 * i < d \<longrightarrow>
            elem (pe self) [0, pos, 2 * i]
              = sin (real pos * exp (real (2 * i) * (- ln 10000 / real d)))) \<and>
         (\<forall>pos i. pos < L \<longrightarrow> 2 * i + 1 < d \<longrightarrow>
            elem (pe self) [0, pos, 2 * i + 1]
              = cos (real pos * exp (real (2 * i) * (- ln 10000 / real d))))))"
proof (intro conjI impI)
  show "PositionalEncoding_init d L = Inl ZeroDivisionError" if "d = 0"
    using that by (simp add: PositionalEncoding_init_def)
next
  obtain A where A: "tensor_mul (unsqueeze (Suc 0) (arange L (Suc 0))) (div_term d) = Inr A"
      "shape A = [L, (d + 1) div 2]"
      "\<And>pos c. pos < L \<Longrightarrow> c < (d + 1) div 2 \<Longrightarrow>
          elem A [pos, c] = real pos * exp (real (2 * c) * (- ln 10000 / real d))"
    using angles[of L d] by blast
  define P1 where "P1 = \<lparr>shape = [L, d],
          elem = (\<lambda>idx. if 0 \<le> idx ! 1 \<and> (idx ! 1 - 0) mod 2 = 0
                         then elem (tensor_map sin A) (bidx (shape (tensor_map sin A)) [idx ! 0, (idx ! 1 - 0) div 2])
                         else elem (zeros [L, d]) idx)\<rparr>"
  have p1: "assign_cols (zeros [L, d]) 0 (tensor_map sin A) = Inr P1"
    unfolding P1_def
    by (rule assign_cols_ok) (simp_all add: zeros_def tensor_map_def A(2) broadcast_shapes_same)
  have start: "PositionalEncoding_init d L =
      and_then (assign_cols P1 1 (tensor_map cos A)) (\<lambda>pe2. Inr \<lparr>pe = unsqueeze 0 pe2\<rparr>)"
    if "0 < d"
    using that by (simp add: PositionalEncoding_init_def A(1) p1)
  have P1s: "shape P1 = [L, d]" by (simp add: P1_def)
  {
    assume "0 < d \<and> odd d \<and> d \<noteq> 1"
    then have "assign_cols P1 1 (tensor_map cos A) = Inl RuntimeError"
      using broadcast_slice_odd[of L d]
      by (intro assign_cols_bad[OF P1s]) (simp add: tensor_map_def A(2))
    then show "PositionalEncoding_init d L = Inl RuntimeError"
      using start \<open>0 < d \<and> odd d \<and> d \<noteq> 1\<close> by simp
  }
  {
    assume d: "0 < d \<and> (even d \<or> d = 1)"
    define P2 where "P2 = \<lparr>shape = [L, d],
          elem = (\<lambda>idx. if 1 \<le> idx ! 1 \<and> (idx ! 1 - 1) mod 2 = 0
                         then elem (tensor_map cos A) (bidx (shape (tensor_map cos A)) [idx ! 0, (idx ! 1 - 1) div 2])
                         else elem P1 idx)\<rparr>"
    have p2: "assign_cols P1 1 (tensor_map cos A) = Inr P2"
      unfolding P2_def using d broadcast_slice_odd[of L d]
      by (intro assign_cols_ok[OF P1s]) (simp add: tensor_map_def A(2))
    have init: "PositionalEncoding_init d L = Inr \<lparr>pe = unsqueeze 0 P2\<rparr>"
      using start d p2 by simp
    have shp: "shape (unsqueeze 0 P2) = [1, L, d]" by (simp add: unsqueeze_def P2_def)
    have el: "elem (unsqueeze 0 P2) [0, pos, j] = elem P2 [pos, j]" for pos j
      by (simp add: unsqueeze_def)
    have even_col: "elem P2 [pos, 2 * i] = sin (real pos * exp (real (2 * i) * (- ln 10000 / real d)))"
      if "pos < L" "2 * i < d" for pos i
    proof -
      have c: "i < (d + 1) div 2" using that(2) by linarith
      have "elem P2 [pos, 2 * i] = elem P1 [pos, 2 * i]"
        by (cases i) (simp_all add: P2_def)
      also have "\<dots> = sin (elem A (bidx [L, (d + 1) div 2] [pos, i]))"
        by (simp add: P1_def tensor_map_def A(2))
      also have "bidx [L, (d + 1) div 2] [pos, i] = [pos, i]"
        using that(1) c by (rule bidx2_in_range)
      finally show ?thesis using A(3)[OF that(1) c] by simp
    qed
    have odd_col: "elem P2 [pos, 2 * i + 1] = cos (real pos * exp (real (2 * i) * (- ln 10000 / real d)))"
      if "pos < L" "2 * i + 1 < d" for pos i
    proof -
      have c: "i < (d + 1) div 2" using that(2) by linarith
      have "elem P2 [pos, 2 * i + 1] = cos (elem A (bidx [L, (d + 1) div 2] [pos, i]))"
        by (simp add: P2_def tensor_map_def A(2))
      also have "bidx [L, (d + 1) div 2] [pos, i] = [pos, i]"
        using that(1) c by (rule bidx2_in_range)
      finally show ?thesis using A(3)[OF that(1) c] by simp
    qed
    show "\<exists>self. PositionalEncoding_init d L = Inr self \<and> shape (pe self) = [1, L, d] \<and>
         (\<forall>pos i. pos < L \<longrightarrow> 2 * i < d \<longrightarrow>
            elem (pe self) [0, pos, 2 * i]
              = sin (real pos * exp (real (2 * i) * (- ln 10000 / real d)))) \<and>
         (\<forall>pos i. pos < L \<longrightarrow> 2 * i + 1 < d \<longrightarrow>
            elem (pe self) [0, pos, 2 * i + 1]
              = cos (real pos * exp (real (2 * i) * (- ln 10000 / real d))))"
      using init shp el even_col odd_col by simp
  }
qed


lemma bidx3:
  "bidx [a, b, c] [i, j, k] =
     [if a = Suc 0 then 0 else i, if b = Suc 0 then 0 else j, if c = Suc 0 then 0 else k]"
  by (simp add: bidx_def)

lemma bidx3_in_range: "i < a \<Longrightarrow> j < b \<Longrightarrow> k < c \<Longrightarrow> bidx [a, b, c] [i, j, k] = [i, j, k]"
  by (auto simp: bidx3)

lemma broadcast_rows:
  "broadcast_shapes [B, T, d] [Suc 0, m, d] =
     (if T = m \<or> m = 1 then Some [B, T, d] else if T = 1 then Some [B, m, d] else None)"
  by (simp add: broadcast_shapes_def)

lemma PositionalEncoding_forward_unfold:
  assumes p: "shape (pe self) = [1, L, d]" and x: "shape x = [B, T, d]"
  shows "PositionalEncoding_forward self x =
     (if T = min T L \<or> min T L = 1 then
        Inr \<lparr>shape = [B, T, d],
             elem = (\<lambda>idx. elem x (bidx [B, T, d] idx) + elem (pe self) (bidx [1, min T L, d] idx))\<rparr>
      else if T = 1 then
        Inr \<lparr>shape = [B, min T L, d],
             elem = (\<lambda>idx. elem x (bidx [B, T, d] idx) + elem (pe self) (bidx [1, min T L, d] idx))\<rparr>
      else Inl RuntimeError)"
  by (simp add: PositionalEncoding_forward_def slice_dim1_def tensor_add_def tensor_binop_def
      p x broadcast_rows)

lemma PositionalEncoding_forward_within:
  assumes p: "shape (pe self) = [1, L, d]" and x: "shape x = [B, T, d]" and le: "T \<le> L"
  shows "\<exists>y. PositionalEncoding_forward self x = Inr y \<and> shape y = [B, T, d] \<and>
           (\<forall>b t j. b < B \<longrightarrow> t < T \<longrightarrow> j < d \<longrightarrow>
              elem y [b, t, j] = elem x [b, t, j] + elem (pe self) [0, t, j])"
proof -
  have m: "min T L = T" using le by simp
  have "bidx [1, T, d] [b, t, j] = [0, t, j]" if "t < T" "j < d" for b t j
    using that by (auto simp: bidx3)
  then show ?thesis
    unfolding PositionalEncoding_forward_unfold[OF p x] m
    by (simp add: bidx3_in_range)
qed

lemma PositionalEncoding_forward_beyond:
  assumes p: "shape (pe self) = [1, L, d]" and x: "shape x = [B, T, d]" and gt: "L < T"
  shows "(2 \<le> L \<longrightarrow> PositionalEncoding_forward self x = Inl RuntimeError)
     \<and> (L = 0 \<and> T \<noteq> 1 \<longrightarrow> PositionalEncoding_forward self x = Inl RuntimeError)
     \<and> (L = 1 \<longrightarrow> (\<exists>y. PositionalEncoding_forward self x = Inr y \<and> shape y = [B, T, d] \<and>
           (\<forall>b t j. b < B \<longrightarrow> t < T \<longrightarrow> j < d \<longrightarrow>
              elem y [b, t, j] = elem x [b, t, j] + elem (pe self) [0, 0, j])))
     \<and> (L = 0 \<and> T = 1 \<longrightarrow> (\<exists>y. PositionalEncoding_forward self x = Inr y \<and> shape y = [B, 0, d]))"
proof -
  have m: "min T L = L" using gt by simp
  have "bidx [1, 1, d] [b, t, j] = [0, 0, j]" if "j < d" for b t j
    using that by (auto simp: bidx3)
  then show ?thesis
    unfolding PositionalEncoding_forward_unfold[OF p x] m using gt
    by (auto simp: bidx3_in_range)
qed

lemma pe_formula:
  "real pos * exp (real (2 * i) * (- ln 10000 / real d)) = real pos / 10000 powr (real (2 * i) / real d)"
  by (simp add: powr_def exp_minus divide_inverse)

lemma PositionalEncoding_init_Inr:
  assumes "PositionalEncoding_init d L = Inr self"
  shows "shape (pe self) = [1, L, d]"
    and "pos < L \<Longrightarrow> 2 * i < d \<Longrightarrow>
            elem (pe self) [0, pos, 2 * i] = sin (real pos / 10000 powr (real (2 * i) / real d))"
    and "pos < L \<Longrightarrow> 2 * i + 1 < d \<Longrightarrow>
            elem (pe self) [0, pos, 2 * i + 1] = cos (real pos / 10000 powr (real (2 * i) / real d))"
proof -
  have d: "0 < d \<and> (even d \<or> d = 1)"
    using assms PositionalEncoding_init_cases[of d L] by (cases "d = 0"; cases "even d \<or> d = 1") auto
  with PositionalEncoding_init_cases[of d L] assms
  have *: "shape (pe self) = [1, L, d] \<and>
         (\<forall>pos i. pos < L \<longrightarrow> 2 * i < d \<longrightarrow>
            elem (pe self) [0, pos, 2 * i]
              = sin (real pos * exp (real (2 * i) * (- ln 10000 / real d)))) \<and>
         (\<forall>pos i. pos < L \<longrightarrow> 2 * i + 1 < d \<longrightarrow>
            elem (pe self) [0, pos, 2 * i + 1]
              = cos (real pos * exp (real (2 * i) * (- ln 10000 / real d))))"
    by auto
  show "shape (pe self) = [1, L, d]" using * by simp
  show "elem (pe self) [0, pos, 2 * i] = sin (real pos / 10000 powr (real (2 * i) / real d))"
    if "pos < L" "2 * i < d"
    using * that by (simp only: pe_formula[symmetric])
  show "elem (pe self) [0, pos, 2 * i + 1] = cos (real pos / 10000 powr (real (2 * i) / real d))"
    if "pos < L" "2 * i + 1 < d"
    using * that by (simp only: pe_formula[symmetric])
qed


lemma PositionalEncoding_init_ok:
  "0 < d \<Longrightarrow> even d \<Longrightarrow> \<exists>self. PositionalEncoding_init d L = Inr self"
  using PositionalEncoding_init_cases[of d L] by blast

text \<open>
  A table of one row is broadcast over any number of positions: with \<open>max_len = 1\<close> the call
  on a sequence of length 2 returns.
\<close>

theorem PositionalEncoding_forward_beyond_max_len_counterexample:
  "and_then (PositionalEncoding_init 2 1)
     (\<lambda>self. and_then (PositionalEncoding_forward self (zeros [1, 2, 2])) (\<lambda>y. Inr (shape y)))
   = Inr [1, 2, 2]"
proof -
  obtain self where init: "PositionalEncoding_init 2 1 = Inr self"
    using PositionalEncoding_init_ok[of 2 1] by auto
  have x: "shape (zeros [1, 2, 2]) = [1, 2, 2]" by (simp add: zeros_def)
  have lt: "(1 :: nat) < 2" by simp
  obtain y where "PositionalEncoding_forward self (zeros [1, 2, 2]) = Inr y" "shape y = [1, 2, 2]"
    using PositionalEncoding_forward_beyond[OF PositionalEncoding_init_Inr(1)[OF init] x lt] by auto
  then show ?thesis using init by simp
qed

text \<open>
  Claim C9. A sequence longer than \<open>max_len\<close> makes \<open>forward\<close> raise, and a sequence of at
  most \<open>max_len\<close> positions is accepted. The slice \<open>self.pe[:, :T]\<close> is clamped to the
  \<open>max_len\<close> rows of the table, and the error is that of the addition, whose operands do not
  broadcast. As amended: for an input of shape \<open>[B, T, d_model]\<close> with \<open>T > max_len\<close> the call
  raises when \<open>max_len \<ge> 2\<close>, and when \<open>max_len = 0\<close> and \<open>T \<noteq> 1\<close>; with \<open>max_len = 1\<close> it
  returns, row 0 of the table added at every position; with \<open>max_len = 0\<close> and \<open>T = 1\<close> it
  returns an empty tensor; and for \<open>T \<le> max_len\<close> it returns.
\<close>

theorem PositionalEncoding_forward_length:
  assumes init: "PositionalEncoding_init d L = Inr self" and x: "shape x = [B, T, d]"
  shows "(T \<le> L \<longrightarrow> (\<exists>y. PositionalEncoding_forward self x = Inr y \<and> shape y = [B, T, d]))
     \<and> (L < T \<and> 2 \<le> L \<longrightarrow> PositionalEncoding_forward self x = Inl RuntimeError)
     \<and> (L < T \<and> L = 0 \<and> T \<noteq> 1 \<longrightarrow> PositionalEncoding_forward self x = Inl RuntimeError)
     \<and> (L < T \<and> L = 1 \<longrightarrow>
          (\<exists>y. PositionalEncoding_forward self x = Inr y \<and> shape y = [B, T, d] \<and>
             (\<forall>b t j. b < B \<longrightarrow> t < T \<longrightarrow> j < d \<longrightarrow>
                elem y [b, t, j] = elem x [b, t, j] + elem (pe self) [0, 0, j])))
     \<and> (L = 0 \<and> T = 1 \<longrightarrow>
          (\<exists>y. PositionalEncoding_forward self x = Inr y \<and> shape y = [B, 0, d]))"
proof -
  note p = PositionalEncoding_init_Inr(1)[OF init]
  show ?thesis
  proof (cases "T \<le> L")
    case True
    then show ?thesis using PositionalEncoding_forward_within[OF p x] by auto
  next
    case False
    then have "L < T" by simp
    from PositionalEncoding_forward_beyond[OF p x this] False show ?thesis by auto
  qed
qed

theorem PositionalEncoding_forward_length_witness:
  "\<exists>s3 s1 s0.
     PositionalEncoding_init 4 3 = Inr s3 \<and> PositionalEncoding_init 4 1 = Inr s1 \<and>
     PositionalEncoding_init 4 0 = Inr s0 \<and>
     (\<exists>y. PositionalEncoding_forward s3 (zeros [2, 2, 4]) = Inr y \<and> shape y = [2, 2, 4]) \<and>
     PositionalEncoding_forward s3 (zeros [2, 5, 4]) = Inl RuntimeError \<and>
     PositionalEncoding_forward s0 (zeros [2, 2, 4]) = Inl RuntimeError \<and>
     (\<exists>y. PositionalEncoding_forward s1 (zeros [2, 5, 4]) = Inr y \<and> shape y = [2, 5, 4]) \<and>
     (\<exists>y. PositionalEncoding_forward s0 (zeros [2, 1, 4]) = Inr y \<and> shape y = [2, 0, 4])"
proof -
  obtain s3 where s3: "PositionalEncoding_init 4 3 = Inr s3"
    using PositionalEncoding_init_ok[of 4 3] by auto
  obtain s1 where s1: "PositionalEncoding_init 4 1 = Inr s1"
    using PositionalEncoding_init_ok[of 4 1] by auto
  obtain s0 where s0: "PositionalEncoding_init 4 0 = Inr s0"
    using PositionalEncoding_init_ok[of 4 0] by auto
  have x2: "shape (zeros [2, 2, 4]) = [2, 2, 4]" and x5: "shape (zeros [2, 5, 4]) = [2, 5, 4]"
    and x1: "shape (zeros [2, 1, 4]) = [2, 1, 4]"
    by (simp_all add: zeros_def)
  have a: "\<exists>y. PositionalEncoding_forward s3 (zeros [2, 2, 4]) = Inr y \<and> shape y = [2, 2, 4]"
    using PositionalEncoding_forward_length[OF s3 x2] by simp
  have b: "PositionalEncoding_forward s3 (zeros [2, 5, 4]) = Inl RuntimeError"
    using PositionalEncoding_forward_length[OF s3 x5] by simp
  have c: "PositionalEncoding_forward s0 (zeros [2, 2, 4]) = Inl RuntimeError"
    using PositionalEncoding_forward_length[OF s0 x2] by simp
  have d: "\<exists>y. PositionalEncoding_forward s1 (zeros [2, 5, 4]) = Inr y \<and> shape y = [2, 5, 4]"
    using PositionalEncoding_forward_length[OF s1 x5] by auto
  have e: "\<exists>y. PositionalEncoding_forward s0 (zeros [2, 1, 4]) = Inr y \<and> shape y = [2, 0, 4]"
    using PositionalEncoding_forward_length[OF s0 x1] by simp
  show ?thesis using s3 s1 s0 a b c d e by blast
qed

text \<open>
  Claim C10. The table built by the constructor holds, at position \<open>pos < max_len\<close> and for
  every \<open>i\<close> with \<open>2i + 1 < d_model\<close>, \<open>sin (pos / 10000 ^ (2i / d_model))\<close> in column \<open>2i\<close>
  and the cosine of the same angle in column \<open>2i + 1\<close>; and for an input of shape
  \<open>[B, T, d_model]\<close> with \<open>T \<le> max_len\<close>, \<open>forward\<close> returns the input plus the first \<open>T\<close>
  rows of the table. (The constructor raises for \<open>d_model = 0\<close> and for an odd
  \<open>d_model \<ge> 3\<close>, where the cosine columns are one fewer than the angles.)
\<close>

theorem PositionalEncoding_table:
  assumes init: "PositionalEncoding_init d L = Inr self"
  shows "shape (pe self) = [1, L, d]
     \<and> (\<forall>pos i. pos < L \<longrightarrow> 2 * i + 1 < d \<longrightarrow>
          elem (pe self) [0, pos, 2 * i] = sin (real pos / 10000 powr (real (2 * i) / real d)) \<and>
          elem (pe self) [0, pos, 2 * i + 1] = cos (real pos / 10000 powr (real (2 * i) / real d)))
     \<and> (\<forall>x B T. shape x = [B, T, d] \<longrightarrow> T \<le> L \<longrightarrow>
          (\<exists>y. PositionalEncoding_forward self x = Inr y \<and> shape y = [B, T, d] \<and>
             (\<forall>b t j. b < B \<longrightarrow> t < T \<longrightarrow> j < d \<longrightarrow>
                elem y [b, t, j] = elem x [b, t, j] + elem (pe self) [0, t, j])))"
proof (intro conjI allI impI)
  show p: "shape (pe self) = [1, L, d]" by (rule PositionalEncoding_init_Inr(1)[OF init])
  show "elem (pe self) [0, pos, 2 * i] = sin (real pos / 10000 powr (real (2 * i) / real d))"
    if "pos < L" "2 * i + 1 < d" for pos i
    using PositionalEncoding_init_Inr(2)[OF init, of pos i] that by simp
  show "elem (pe self) [0, pos, 2 * i + 1] = cos (real pos / 10000 powr (real (2 * i) / real d))"
    if "pos < L" "2 * i + 1 < d" for pos i
    using PositionalEncoding_init_Inr(3)[OF init, of pos i] that by simp
  show "\<exists>y. PositionalEncoding_forward self x = Inr y \<and> shape y = [B, T, d] \<and>
             (\<forall>b t j. b < B \<longrightarrow> t < T \<longrightarrow> j < d \<longrightarrow>
                elem y [b, t, j] = elem x [b, t, j] + elem (pe self) [0, t, j])"
    if "shape x = [B, T, d]" "T \<le> L" for x B T
    using PositionalEncoding_forward_within[OF p that] .
qed

theorem PositionalEncoding_table_witness:
  "\<exists>self. PositionalEncoding_init 4 3 = Inr self \<and> shape (pe self) = [1, 3, 4] \<and>
     elem (pe self) [0, 2, 2] = sin (2 / 10000 powr (2 / 4)) \<and>
     elem (pe self) [0, 2, 3] = cos (2 / 10000 powr (2 / 4)) \<and>
     (\<exists>y. PositionalEncoding_forward self (zeros [1, 2, 4]) = Inr y \<and> shape y = [1, 2, 4] \<and>
          elem y [0, 1, 3] = elem (pe self) [0, 1, 3])"
proof -
  obtain self where init: "PositionalEncoding_init 4 3 = Inr self"
    using PositionalEncoding_init_ok[of 4 3] by auto
  note t = PositionalEncoding_table[OF init]
  have s: "shape (pe self) = [1, 3, 4]" using t by simp
  have "(2 :: nat) < 3 \<and> 2 * (1 :: nat) + 1 < 4" by simp
  with t have "elem (pe self) [0, 2, 2 * 1] = sin (real 2 / 10000 powr (real (2 * 1) / real 4)) \<and>
          elem (pe self) [0, 2, 2 * 1 + 1] = cos (real 2 / 10000 powr (real (2 * 1) / real 4))"
    by blast
  then have e: "elem (pe self) [0, 2, 2] = sin (2 / 10000 powr (2 / 4))"
      "elem (pe self) [0, 2, 3] = cos (2 / 10000 powr (2 / 4))"
    by simp_all
  have x: "shape (zeros [1, 2, 4]) = [1, 2, 4]" by (simp add: zeros_def)
  have "(2 :: nat) \<le> 3" by simp
  with t x obtain y where y: "PositionalEncoding_forward self (zeros [1, 2, 4]) = Inr y"
      "shape y = [1, 2, 4]"
      "\<forall>b t j. b < 1 \<longrightarrow> t < 2 \<longrightarrow> j < 4 \<longrightarrow>
          elem y [b, t, j] = elem (zeros [1, 2, 4]) [b, t, j] + elem (pe self) [0, t, j]"
    by blast
  from y(3) have "elem y [0, 1, 3] = elem (zeros [1, 2, 4]) [0, 1, 3] + elem (pe self) [0, 1, 3]"
    by simp
  then have "elem y [0, 1, 3] = elem (pe self) [0, 1, 3]" by (simp add: zeros_def)
  with init s e y(1,2) show ?thesis by blast
qed

end
